theory Spec2Isabelle
  imports Main "HOL-Library.Sublist" "HOL-Library.Word"
begin

section \<open>Strings as JavaScript sees them\<close>

text \<open>
  The webhook code works on JavaScript strings with \<open>includes\<close>, \<open>split\<close> and
  indexing of the array that \<open>split\<close> returns. A string is a \<open>char list\<close>; a value
  that may be \<open>undefined\<close> is a \<open>string option\<close> with \<open>None\<close> for \<open>undefined\<close>.
\<close>

text \<open>\<open>s.includes(m)\<close>: \<open>m\<close> occurs in \<open>s\<close> as a contiguous substring.\<close>

fun includes_str :: "string \<Rightarrow> string \<Rightarrow> bool" where
  "includes_str [] m = (m = [])"
| "includes_str (c # cs) m = (prefix m (c # cs) \<or> includes_str cs m)"

text \<open>
  \<open>s.split(sep)\<close> for a non-empty separator: the string is scanned from the left, every
  occurrence found ends the current piece and the scan resumes behind it. The empty
  string splits into \<open>[""]\<close>.
\<close>

fun split :: "string \<Rightarrow> string \<Rightarrow> string list" where
  "split sep [] = [[]]"
| "split sep (c # cs) =
     (if prefix sep (c # cs) then [] # split sep (drop (length sep - 1) cs)
      else (case split sep cs of
              [] \<Rightarrow> [[c]]
            | w # ws \<Rightarrow> (c # w) # ws))"

text \<open>\<open>xs[i]\<close> on an array: \<open>undefined\<close> beyond the end.\<close>

definition at_index :: "'a list \<Rightarrow> nat \<Rightarrow> 'a option" where
  "at_index xs i = (if i < length xs then Some (xs ! i) else None)"

text \<open>\<open>!v\<close> on a value that is a string or \<open>undefined\<close>: true on \<open>undefined\<close> and on \<open>""\<close>.\<close>

definition falsy :: "string option \<Rightarrow> bool" where
  "falsy v = (case v of None \<Rightarrow> True | Some s \<Rightarrow> s = [])"

text \<open>\<open>v || d\<close> on a value that is a string or \<open>undefined\<close>.\<close>

definition or_else :: "string option \<Rightarrow> string \<Rightarrow> string" where
  "or_else v d = (case v of None \<Rightarrow> d | Some s \<Rightarrow> if s = [] then d else s)"

section \<open>Errors\<close>

text \<open>
  A thrown JavaScript error, by its class, with its message. The code only ever reads
  \<open>error.message\<close>.
\<close>

datatype error =
    Error string
  | TypeError string
  | ReferenceError string
  | SyntaxError string
  | AxiosError string

fun message :: "error \<Rightarrow> string" where
  "message (Error m) = m"
| "message (TypeError m) = m"
| "message (ReferenceError m) = m"
| "message (SyntaxError m) = m"
| "message (AxiosError m) = m"

section \<open>Signature verification\<close>

text \<open>
  \<open>crypto.createHmac('sha256', key).update(payload)\<close> is Node's library, not code of this
  repository: the MAC is a parameter \<open>hmac key payload\<close>, a 256-bit value as SHA-256
  yields. \<open>digest('hex')\<close> writes it as 64 lower-case hexadecimal digits, most
  significant first.
\<close>

type_synonym hmac_fn = "string \<Rightarrow> string \<Rightarrow> 256 word"

definition hex_digit :: "nat \<Rightarrow> char" where
  "hex_digit n = ''0123456789abcdef'' ! (n mod 16)"

definition digest_hex :: "256 word \<Rightarrow> string" where
  "digest_hex w = map (\<lambda>i. hex_digit (unat (drop_bit (4 * (63 - i)) w))) [0..<64]"

text \<open>
  \<open>crypto.timingSafeEqual(a, b)\<close> on two buffers of the same length: whether they hold
  the same bytes. The code calls it only behind the length test.
\<close>

definition timingSafeEqual :: "string \<Rightarrow> string \<Rightarrow> bool" where
  "timingSafeEqual a b = (a = b)"

text \<open>
  \<open>verifyWebhookSignature(rawBody, receivedSignature, webhookSecret)\<close> of
  \<open>src/SumsubApiClient.js\<close> (both copies of the module have the same text). It is an
  \<open>async\<close> function without any \<open>await\<close>: its body runs to the end when it is called, and
  the promise it returns is already settled. \<open>Inr v\<close> is a promise fulfilled with \<open>v\<close>,
  \<open>Inl e\<close> one rejected with \<open>e\<close>. The secret is the value of
  \<open>SUMSUB_WEBHOOK_SECRET\<close>, \<open>None\<close> when the variable is not set (both callers pass that
  variable, and the parameter's default is the same variable).
\<close>

definition verifyWebhookSignature ::
  "hmac_fn \<Rightarrow> string \<Rightarrow> string option \<Rightarrow> string option \<Rightarrow> error + bool" where
  "verifyWebhookSignature hmac rawBody receivedSignature webhookSecret =
     (case webhookSecret of
        None \<Rightarrow> Inr True
      | Some secret \<Rightarrow>
          if secret = [] then Inr True
          else
            (case receivedSignature of
               None \<Rightarrow> Inl (Error ''Missing x-payload-digest header'')
             | Some signature \<Rightarrow>
                 if signature = [] then Inl (Error ''Missing x-payload-digest header'')
                 else
                   (let computedDigest = digest_hex (hmac secret rawBody);
                        receivedBuffer = signature;
                        computedBuffer = computedDigest
                    in if length receivedBuffer \<noteq> length computedBuffer
                          \<or> \<not> timingSafeEqual receivedBuffer computedBuffer
                       then Inl (Error ''Invalid webhook signature'')
                       else Inr True)))"

section \<open>Events, payloads and the cache\<close>

text \<open>
  The parsed webhook body, with the fields the code reads: \<open>type\<close>, \<open>applicantId\<close>,
  \<open>reviewResult\<close> (with \<open>reviewStatus\<close>, \<open>levelName\<close>, \<open>rejectLabels\<close>) and
  \<open>inspectionId\<close>. A field that is absent from the body is \<open>None\<close>; a field that is
  present holds a string (a list of strings for \<open>rejectLabels\<close>). Timestamps are clock
  readings, natural numbers.
\<close>

record review_result =
  rr_reviewStatus :: "string option"
  rr_levelName :: "string option"
  rr_rejectLabels :: "string list option"

record event =
  ev_type :: "string option"
  ev_applicantId :: "string option"
  ev_reviewResult :: "review_result option"
  ev_inspectionId :: "string option"

text \<open>\<open>webhookPayload\<close>, built by \<open>handleWebhookEvent\<close> and posted downstream.\<close>

record webhook_payload =
  wp_type :: "string option"
  wp_applicantId :: string
  wp_externalUserId :: "string option"
  wp_inspectionId :: "string option"
  wp_reviewStatus :: string
  wp_reviewResult :: review_result
  wp_levelName :: string
  wp_createdAt :: nat
  wp_originalEvent :: event

text \<open>\<open>verificationData = {...webhookPayload, djangoResponse, processedAt}\<close>.\<close>

record verification_data =
  vd_payload :: webhook_payload
  vd_djangoResponse :: string
  vd_processedAt :: nat

text \<open>
  The second copy of the module posts a smaller body,
  \<open>{type, applicantId, externalUserId, reviewStatus, reviewResult}\<close>, and caches
  \<open>{applicantId, externalUserId, eventType, status, receivedAt, details}\<close>.
\<close>

record webhook_body2 =
  wb_type :: "string option"
  wb_applicantId :: string
  wb_externalUserId :: string
  wb_reviewStatus :: "string option"
  wb_reviewResult :: "review_result option"

record verification_data2 =
  vd2_applicantId :: string
  vd2_externalUserId :: string
  vd2_eventType :: "string option"
  vd2_status :: string
  vd2_receivedAt :: nat
  vd2_details :: event

text \<open>
  What \<open>verificationCache\<close> holds under a key: the entry \<open>getWebSDKLink\<close> writes
  (\<open>url\<close>, \<open>createdAt\<close>, \<open>levelName\<close>, \<open>status\<close>) or the verification data
  \<open>handleWebhookEvent\<close> writes, in the shape of either copy.
\<close>

datatype cache_entry =
    SdkLink string nat string string
  | VerificationData verification_data
  | VerificationData2 verification_data2

text \<open>The value \<open>handleWebhookEvent\<close> returns.\<close>

record handle_result =
  hr_status :: string
  hr_djangoResponse :: string
  hr_verificationData :: verification_data

text \<open>The second copy returns \<open>{status, djangoResponse}\<close>.\<close>

record handle_result2 =
  hr2_status :: string
  hr2_djangoResponse :: string

text \<open>
  What \<open>storeFailedWebhook\<close> is called with. The module's function gets
  \<open>{...webhookPayload, error: errorDetails, retryCount: 0}\<close> in the first copy and
  \<open>{type, applicantId, externalUserId, reviewResult, timestamp}\<close> in the second, the one
  of \<open>server.js\<close> the parsed event. All three functions only write to the console, so
  the world below keeps the calls themselves.
\<close>

record failed_webhook =
  fw_payload :: webhook_payload
  fw_error_message :: string
  fw_error_timestamp :: nat
  fw_retryCount :: nat

record failed_webhook2 =
  fw2_type :: "string option"
  fw2_applicantId :: string
  fw2_externalUserId :: string
  fw2_reviewResult :: "review_result option"
  fw2_timestamp :: nat

datatype stored_item =
    FailedWebhook failed_webhook
  | FailedWebhook2 failed_webhook2
  | FailedEvent event

text \<open>
  The outbound calls, one constructor for each \<open>axios.post\<close> of the pipeline:
  \<open>handleWebhookEvent\<close> posting the payload to \<open>/kyc/webhook/sumsub/\<close>,
  \<open>handleNewApplicant\<close> posting \<open>{}\<close> to \<open>/kyc/verifications/initiate/\<close>,
  \<open>forwardToDjango\<close> of \<open>server.js\<close> posting the result to \<open>/kyc/webhook/sumsub/\<close>, the
  older endpoint posting the result to \<open>/verifications/\<close>, and \<open>handleWebhookEvent\<close> of
  the second copy posting its body to \<open>webhook/\<close>.
\<close>

datatype outbound =
    PostWebhook webhook_payload
  | PostInitiate
  | PostResult handle_result
  | PostVerifications handle_result
  | PostWebhook2 webhook_body2

record http_response =
  status :: nat
  data :: string

text \<open>
  Everything the code takes from outside. \<open>net k call\<close> is what the \<open>k\<close>-th outbound call
  of the process gets when it is \<open>call\<close>: a response, or the error axios rejects with
  (timeout, network error, status outside 2xx). \<open>clock k\<close> is what \<open>new Date()\<close> reads
  once \<open>k\<close> outbound calls have been made: time passes while a call is awaited.
  \<open>JSON_parse\<close> is \<open>JSON.parse\<close> followed by reading the fields of \<open>event\<close>.
  \<open>handlePendingVerification\<close>, \<open>handleOnHoldVerification\<close> and \<open>handleUnknownEvent\<close>
  are called by \<open>processWebhookEvent\<close> and defined nowhere in the module; they are
  parameters, returning or throwing. \<open>unhandled_rejections\<close> is what Node does with a
  rejected promise that nothing handles (its option \<open>--unhandled-rejections\<close>): \<open>Warn\<close>
  prints a warning and the process goes on, the default before Node 15; \<open>Throw\<close> raises
  the rejection as an uncaught exception, the default since Node 15, and as the source
  installs no handler for either event the process ends.
\<close>

datatype rejection_mode = Warn | Throw

record env =
  hmac :: hmac_fn
  JSON_parse :: "string \<Rightarrow> error + event"
  net :: "nat \<Rightarrow> outbound \<Rightarrow> error + http_response"
  clock :: "nat \<Rightarrow> nat"
  handlePendingVerification :: "string option \<Rightarrow> event \<Rightarrow> error + unit"
  handleOnHoldVerification :: "string option \<Rightarrow> event \<Rightarrow> error + unit"
  handleUnknownEvent :: "string \<Rightarrow> string option \<Rightarrow> event \<Rightarrow> error + unit"
  SUMSUB_WEBHOOK_SECRET :: "string option"
  DEBUG_WEBHOOK :: "string option"
  unhandled_rejections :: rejection_mode

text \<open>
  The state of the process: the module's \<open>verificationCache\<close> (a JavaScript \<open>Map\<close>, whose
  key here is the external user id), every outbound call made so far, every call of
  \<open>storeFailedWebhook\<close>, the rejections of promises that nothing awaits or catches, and
  whether the process has ended.
\<close>

record world =
  verificationCache :: "string option \<rightharpoonup> cache_entry"
  sent :: "outbound list"
  stored :: "stored_item list"
  unhandled :: "error list"
  exited :: bool

definition axios_post :: "env \<Rightarrow> world \<Rightarrow> outbound \<Rightarrow> (error + http_response) \<times> world" where
  "axios_post e s call = (net e (length (sent s)) call, s\<lparr>sent := sent s @ [call]\<rparr>)"

definition new_Date :: "env \<Rightarrow> world \<Rightarrow> nat" where
  "new_Date e s = clock e (length (sent s))"

definition storeFailedWebhook :: "world \<Rightarrow> stored_item \<Rightarrow> world" where
  "storeFailedWebhook s item = s\<lparr>stored := stored s @ [item]\<rparr>"

section \<open>Normalisation and forwarding: handleWebhookEvent\<close>

definition marker :: string where
  "marker = '';externalUserId=''"

text \<open>
  The first copy of the module:
  \<^verbatim>\<open>applicantId.includes(';externalUserId=') ? applicantId.split(';externalUserId=')[1] : applicantId\<close>
\<close>

definition externalUserId :: "string \<Rightarrow> string option" where
  "externalUserId applicantId =
     (if includes_str applicantId marker then at_index (split marker applicantId) 1
      else Some applicantId)"

text \<open>
  The second copy of the module:
  \<^verbatim>\<open>applicantId.split(';externalUserId=')[1] || applicantId\<close>
\<close>

definition externalUserId2 :: "string \<Rightarrow> string" where
  "externalUserId2 applicantId = or_else (at_index (split marker applicantId) 1) applicantId"

text \<open>
  \<open>handleCompletedVerification\<close> and \<open>handleRejectedVerification\<close> write to the console
  and return.
\<close>

definition handleCompletedVerification ::
  "world \<Rightarrow> string option \<Rightarrow> event \<Rightarrow> (error + unit) \<times> world" where
  "handleCompletedVerification s userId ev = (Inr (), s)"

definition handleRejectedVerification ::
  "world \<Rightarrow> string option \<Rightarrow> event \<Rightarrow> (error + unit) \<times> world" where
  "handleRejectedVerification s userId ev = (Inr (), s)"

text \<open>
  \<open>handleNewApplicant\<close>: one post to \<open>/kyc/verifications/initiate/\<close>; a response with
  status 401 is turned into an error, a rejection is thrown on.
\<close>

definition handleNewApplicant ::
  "env \<Rightarrow> world \<Rightarrow> string option \<Rightarrow> event \<Rightarrow> (error + unit) \<times> world" where
  "handleNewApplicant e s userId ev =
     (case axios_post e s PostInitiate of
        (Inl err, s') \<Rightarrow> (Inl err, s')
      | (Inr response, s') \<Rightarrow>
          if status response = 401
          then (Inl (Error ''Invalid Django service token - check .env configuration''), s')
          else (Inr (), s'))"

text \<open>
  \<open>processWebhookEvent(type, externalUserId, reviewStatus, originalEvent)\<close>. The log
  prefix calls \<open>type.toUpperCase()\<close>, a TypeError when the event has no \<open>type\<close>; then the
  \<open>switch\<close> on the type, in the order of the source. Its \<open>catch\<close> logs and throws the
  error on.
\<close>

definition processWebhookEvent ::
  "env \<Rightarrow> world \<Rightarrow> string option \<Rightarrow> string option \<Rightarrow> string option \<Rightarrow> event
     \<Rightarrow> (error + unit) \<times> world" where
  "processWebhookEvent e s type userId reviewStatus originalEvent =
     (case type of
        None \<Rightarrow> (Inl (TypeError ''Cannot read properties of undefined (reading 'toUpperCase')''), s)
      | Some t \<Rightarrow>
          if t = ''applicantReviewed'' then
            (if reviewStatus = Some ''completed''
             then handleCompletedVerification s userId originalEvent
             else if reviewStatus = Some ''rejected''
             then handleRejectedVerification s userId originalEvent
             else (Inr (), s))
          else if t = ''applicantPending'' then
            (handlePendingVerification e userId originalEvent, s)
          else if t = ''applicantCreated'' then
            handleNewApplicant e s userId originalEvent
          else if t = ''applicantOnHold'' then
            (handleOnHoldVerification e userId originalEvent, s)
          else (handleUnknownEvent e t userId originalEvent, s))"

text \<open>
  The payload \<open>handleWebhookEvent\<close> builds. \<open>reviewResult = {}\<close> is the default of the
  destructuring when the event has no \<open>reviewResult\<close>.
\<close>

definition empty_reviewResult :: review_result where
  "empty_reviewResult =
     \<lparr>rr_reviewStatus = None, rr_levelName = None, rr_rejectLabels = None\<rparr>"

definition reviewResult_of :: "event \<Rightarrow> review_result" where
  "reviewResult_of ev =
     (case ev_reviewResult ev of None \<Rightarrow> empty_reviewResult | Some r \<Rightarrow> r)"

definition webhookPayload :: "env \<Rightarrow> world \<Rightarrow> event \<Rightarrow> string \<Rightarrow> webhook_payload" where
  "webhookPayload e s ev applicantId =
     \<lparr>wp_type = ev_type ev,
      wp_applicantId = applicantId,
      wp_externalUserId = externalUserId applicantId,
      wp_inspectionId = ev_inspectionId ev,
      wp_reviewStatus = or_else (rr_reviewStatus (reviewResult_of ev)) ''pending'',
      wp_reviewResult = reviewResult_of ev,
      wp_levelName = or_else (rr_levelName (reviewResult_of ev)) ''kyc_verification'',
      wp_createdAt = new_Date e s,
      wp_originalEvent = ev\<rparr>"

text \<open>
  The \<open>catch\<close> block of \<open>handleWebhookEvent\<close>: the failure goes to \<open>storeFailedWebhook\<close>
  and a new error is thrown, its message the old one behind
  \<open>Webhook processing failed: \<close>.
\<close>

definition processing_failed ::
  "env \<Rightarrow> world \<Rightarrow> webhook_payload \<Rightarrow> error \<Rightarrow> (error + handle_result) \<times> world" where
  "processing_failed e s payload err =
     (Inl (Error (''Webhook processing failed: '' @ message err)),
      storeFailedWebhook s
        (FailedWebhook
           \<lparr>fw_payload = payload,
            fw_error_message = message err,
            fw_error_timestamp = new_Date e s,
            fw_retryCount = 0\<rparr>))"

text \<open>
  \<open>handleWebhookEvent(event)\<close>, first copy of the module. \<open>applicantId.includes\<close> is
  outside the \<open>try\<close> and throws a TypeError when the event has no \<open>applicantId\<close>.
  Inside the \<open>try\<close>: the post of the payload, then \<open>verificationCache.set\<close>, then
  \<open>processWebhookEvent\<close>, then the result.
\<close>

definition handleWebhookEvent ::
  "env \<Rightarrow> world \<Rightarrow> event \<Rightarrow> (error + handle_result) \<times> world" where
  "handleWebhookEvent e s ev =
     (case ev_applicantId ev of
        None \<Rightarrow> (Inl (TypeError ''Cannot read properties of undefined (reading 'includes')''), s)
      | Some applicantId \<Rightarrow>
          (let payload = webhookPayload e s ev applicantId in
           case axios_post e s (PostWebhook payload) of
             (Inl err, s1) \<Rightarrow> processing_failed e s1 payload err
           | (Inr response, s1) \<Rightarrow>
               (let verificationData =
                      \<lparr>vd_payload = payload,
                       vd_djangoResponse = data response,
                       vd_processedAt = new_Date e s1\<rparr>;
                    s2 = s1\<lparr>verificationCache :=
                              (verificationCache s1)
                                (wp_externalUserId payload \<mapsto> VerificationData verificationData)\<rparr>
                in case processWebhookEvent e s2 (ev_type ev) (wp_externalUserId payload)
                          (rr_reviewStatus (reviewResult_of ev)) ev of
                     (Inl err, s3) \<Rightarrow> processing_failed e s3 payload err
                   | (Inr u, s3) \<Rightarrow>
                       (Inr \<lparr>hr_status = ''processed'',
                             hr_djangoResponse = data response,
                             hr_verificationData = verificationData\<rparr>, s3))))"

text \<open>
  \<open>handleWebhookEvent(event)\<close>, second copy of the module. \<open>applicantId.split\<close> is
  outside the \<open>try\<close>. The cache is written when the response has status 200; the
  \<open>switch\<close> on the type behind it only writes to the console, the \<open>default\<close> branch
  \<open>Unhandled event type\<close>. With another status the function returns nothing
  (\<open>undefined\<close>, here \<open>None\<close>). The \<open>catch\<close> calls \<open>storeFailedWebhook\<close> and throws the
  error on.
\<close>

definition webhookBody2 :: "event \<Rightarrow> string \<Rightarrow> webhook_body2" where
  "webhookBody2 ev applicantId =
     \<lparr>wb_type = ev_type ev,
      wb_applicantId = applicantId,
      wb_externalUserId = externalUserId2 applicantId,
      wb_reviewStatus =
        (case ev_reviewResult ev of None \<Rightarrow> None | Some r \<Rightarrow> rr_reviewStatus r),
      wb_reviewResult = ev_reviewResult ev\<rparr>"

definition verificationData2 :: "env \<Rightarrow> world \<Rightarrow> event \<Rightarrow> string \<Rightarrow> verification_data2" where
  "verificationData2 e s ev applicantId =
     \<lparr>vd2_applicantId = applicantId,
      vd2_externalUserId = externalUserId2 applicantId,
      vd2_eventType = ev_type ev,
      vd2_status =
        or_else (case ev_reviewResult ev of None \<Rightarrow> None | Some r \<Rightarrow> rr_reviewStatus r)
          ''unknown'',
      vd2_receivedAt = new_Date e s,
      vd2_details = ev\<rparr>"

definition handleWebhookEvent2 ::
  "env \<Rightarrow> world \<Rightarrow> event \<Rightarrow> (error + handle_result2 option) \<times> world" where
  "handleWebhookEvent2 e s ev =
     (case ev_applicantId ev of
        None \<Rightarrow> (Inl (TypeError ''Cannot read properties of undefined (reading 'split')''), s)
      | Some applicantId \<Rightarrow>
          (case axios_post e s (PostWebhook2 (webhookBody2 ev applicantId)) of
             (Inl err, s1) \<Rightarrow>
               (Inl err,
                storeFailedWebhook s1
                  (FailedWebhook2
                     \<lparr>fw2_type = ev_type ev,
                      fw2_applicantId = applicantId,
                      fw2_externalUserId = externalUserId2 applicantId,
                      fw2_reviewResult = ev_reviewResult ev,
                      fw2_timestamp = new_Date e s1\<rparr>))
           | (Inr response, s1) \<Rightarrow>
               if status response = 200
               then (Inr (Some \<lparr>hr2_status = ''processed'',
                                  hr2_djangoResponse = data response\<rparr>),
                     s1\<lparr>verificationCache :=
                          (verificationCache s1)
                            (Some (externalUserId2 applicantId) \<mapsto>
                               VerificationData2 (verificationData2 e s1 ev applicantId))\<rparr>)
               else (Inr None, s1)))"

section \<open>The webhook endpoints\<close>

record request =
  rawBody :: string
  x_payload_digest :: "string option"

datatype res_body =
    Send string
  | Json "(string \<times> string) list"

record response =
  res_status :: nat
  res_body :: res_body

text \<open>
  A JavaScript value that is a boolean or a promise of one. \<open>!v\<close> is \<open>\<not> truthy v\<close>: a
  promise is an object, and every object is truthy, whatever it settles to.
\<close>

datatype js_bool = Plain bool | Promise "error + bool"

fun truthy :: "js_bool \<Rightarrow> bool" where
  "truthy (Plain b) = b"
| "truthy (Promise p) = True"

text \<open>\<open>forwardToDjango(data)\<close> of \<open>server.js\<close>: one post, a rejection is logged and thrown on.\<close>

definition forwardToDjango ::
  "env \<Rightarrow> world \<Rightarrow> handle_result \<Rightarrow> (error + http_response) \<times> world" where
  "forwardToDjango e s result = axios_post e s (PostResult result)"

text \<open>The outer \<open>catch\<close> of the handler in \<open>server.js\<close>.\<close>

definition server_catch :: "error \<Rightarrow> response" where
  "server_catch err =
     (if includes_str (message err) ''Invalid webhook signature''
      then \<lparr>res_status = 403, res_body = Json [(''error'', message err)]\<rparr>
      else \<lparr>res_status = 200,
            res_body = Json [(''error'', message err),
                             (''details'', ''Webhook received but encountered processing error'')]\<rparr>)"

text \<open>
  What follows the signature check in \<open>server.js\<close>: \<open>JSON.parse\<close>, \<open>handleWebhookEvent\<close>,
  then \<open>forwardToDjango\<close> in a \<open>try\<close> of its own, whose \<open>catch\<close> calls the
  \<open>storeFailedWebhook\<close> of \<open>server.js\<close> and answers 200.
\<close>

definition server_process :: "env \<Rightarrow> world \<Rightarrow> request \<Rightarrow> response \<times> world" where
  "server_process e s req =
     (case JSON_parse e (rawBody req) of
        Inl err \<Rightarrow> (server_catch err, s)
      | Inr payload \<Rightarrow>
          (case handleWebhookEvent e s payload of
             (Inl err, s1) \<Rightarrow> (server_catch err, s1)
           | (Inr result, s1) \<Rightarrow>
               (case forwardToDjango e s1 result of
                  (Inr r, s2) \<Rightarrow>
                    (\<lparr>res_status = 200, res_body = Send ''Webhook processed successfully''\<rparr>, s2)
                | (Inl djangoError, s2) \<Rightarrow>
                    (\<lparr>res_status = 200,
                      res_body = Json [(''error'', ''Webhook received but Django processing failed''),
                                       (''details'', message djangoError)]\<rparr>,
                     storeFailedWebhook s2 (FailedEvent payload)))))"

text \<open>The debug branch of \<open>server.js\<close>: no signature check, and no inner \<open>try\<close>.\<close>

definition server_debug :: "env \<Rightarrow> world \<Rightarrow> request \<Rightarrow> response \<times> world" where
  "server_debug e s req =
     (case JSON_parse e (rawBody req) of
        Inl err \<Rightarrow> (server_catch err, s)
      | Inr parsed \<Rightarrow>
          (case handleWebhookEvent e s parsed of
             (Inl err, s1) \<Rightarrow> (server_catch err, s1)
           | (Inr result, s1) \<Rightarrow>
               (case forwardToDjango e s1 result of
                  (Inl err, s2) \<Rightarrow> (server_catch err, s2)
                | (Inr r, s2) \<Rightarrow>
                    (\<lparr>res_status = 200, res_body = Send ''Webhook received (debug mode)''\<rparr>, s2))))"

text \<open>
  The handler of \<open>POST /sumsub-webhook\<close> in \<open>server.js\<close>, from the point where the raw
  body has been read. The call of \<open>verifyWebhookSignature\<close> is not awaited:
  \<^verbatim>\<open>const isValid = verifyWebhookSignature(rawBody, receivedSignature, webhookSecret);\<close>
  so \<open>isValid\<close> is the promise. When that promise is rejected nothing catches it, and
  the rejection is kept in \<open>unhandled\<close>. The handler itself goes on. Node looks at the
  unhandled rejections when the handler has nothing left to run without waiting:
  under \<open>Warn\<close> the handler then runs to its end as if the verification had passed;
  under \<open>Throw\<close> the process ends there.
\<close>

definition isValid_server :: "env \<Rightarrow> request \<Rightarrow> js_bool" where
  "isValid_server e req =
     Promise (verifyWebhookSignature (hmac e) (rawBody req) (x_payload_digest req)
                (SUMSUB_WEBHOOK_SECRET e))"

definition unawaited :: "world \<Rightarrow> js_bool \<Rightarrow> world" where
  "unawaited s v =
     (case v of
        Promise (Inl err) \<Rightarrow> s\<lparr>unhandled := unhandled s @ [err]\<rparr>
      | _ \<Rightarrow> s)"

definition rejected :: "js_bool \<Rightarrow> bool" where
  "rejected v = (case v of Promise (Inl err) \<Rightarrow> True | _ \<Rightarrow> False)"

text \<open>A handler that ran to its end: the caller has its answer.\<close>

definition answered :: "response \<times> world \<Rightarrow> response option \<times> world" where
  "answered rs = (Some (fst rs), snd rs)"

text \<open>
  What the handler does under \<open>Throw\<close> before the process ends on the rejected
  verification: the part it runs without waiting for the network. A body that does not
  parse is answered by the \<open>catch\<close>, and so is an event without \<open>applicantId\<close>, for
  which \<open>handleWebhookEvent\<close> throws before its first \<open>await\<close>. For any other event the
  handler is waiting for \<open>axios.post\<close> when the process ends: no request has left, the
  cache is not written and the caller gets no answer.
\<close>

definition server_until_exit :: "env \<Rightarrow> world \<Rightarrow> request \<Rightarrow> response option \<times> world" where
  "server_until_exit e s req =
     (case JSON_parse e (rawBody req) of
        Inl err \<Rightarrow> (Some (server_catch err), s\<lparr>exited := True\<rparr>)
      | Inr payload \<Rightarrow>
          (case ev_applicantId payload of
             None \<Rightarrow>
               (case handleWebhookEvent e s payload of
                  (Inl err, s1) \<Rightarrow> (Some (server_catch err), s1\<lparr>exited := True\<rparr>)
                | (Inr result, s1) \<Rightarrow> (None, s1\<lparr>exited := True\<rparr>))
           | Some applicantId \<Rightarrow> (None, s\<lparr>exited := True\<rparr>)))"

definition sumsub_webhook :: "env \<Rightarrow> world \<Rightarrow> request \<Rightarrow> response option \<times> world" where
  "sumsub_webhook e s req =
     (if falsy (SUMSUB_WEBHOOK_SECRET e)
      then (Some (server_catch (Error ''SUMSUB_WEBHOOK_SECRET is not configured'')), s)
      else if DEBUG_WEBHOOK e = Some ''true'' then answered (server_debug e s req)
      else
        (let isValid = isValid_server e req;
             s0 = unawaited s isValid
         in if \<not> truthy isValid
            then (Some \<lparr>res_status = 403,
                        res_body = Json [(''error'', ''Invalid webhook signature'')]\<rparr>, s0)
            else if rejected isValid \<and> unhandled_rejections e = Throw
            then server_until_exit e s0 req
            else answered (server_process e s0 req)))"

text \<open>
  The older handler of \<open>POST /sumsub-webhook\<close> (\<open>unnamed/part_001\<close>). It awaits the
  verification, throws on a false result, posts the result to \<open>/verifications/\<close>, and
  its single \<open>catch\<close> answers 400 to every error. It has no test of the secret.
\<close>

definition old_catch :: "error \<Rightarrow> response" where
  "old_catch err =
     \<lparr>res_status = 400,
      res_body = Json [(''error'', message err), (''details'', ''Check server logs for more info'')]\<rparr>"

definition old_process :: "env \<Rightarrow> world \<Rightarrow> request \<Rightarrow> string \<Rightarrow> response \<times> world" where
  "old_process e s req reply =
     (case JSON_parse e (rawBody req) of
        Inl err \<Rightarrow> (old_catch err, s)
      | Inr payload \<Rightarrow>
          (case handleWebhookEvent e s payload of
             (Inl err, s1) \<Rightarrow> (old_catch err, s1)
           | (Inr result, s1) \<Rightarrow>
               (case axios_post e s1 (PostVerifications result) of
                  (Inl err, s2) \<Rightarrow> (old_catch err, s2)
                | (Inr r, s2) \<Rightarrow> (\<lparr>res_status = 200, res_body = Send reply\<rparr>, s2))))"

definition sumsub_webhook_old :: "env \<Rightarrow> world \<Rightarrow> request \<Rightarrow> response \<times> world" where
  "sumsub_webhook_old e s req =
     (if DEBUG_WEBHOOK e = Some ''true'' then old_process e s req ''Webhook received (debug mode)''
      else
        (case verifyWebhookSignature (hmac e) (rawBody req) (x_payload_digest req)
                (SUMSUB_WEBHOOK_SECRET e) of
           Inl err \<Rightarrow> (old_catch err, s)
         | Inr isValid \<Rightarrow>
             if \<not> isValid then (old_catch (Error ''Invalid webhook signature''), s)
             else old_process e s req ''Webhook received''))"

section \<open>The module as shipped, and sample inputs\<close>

text \<open>
  Calling a function that no declaration binds throws a ReferenceError. That is what the
  three missing handlers do in the module as it stands.
\<close>

definition not_defined :: "string \<Rightarrow> error + unit" where
  "not_defined name = Inl (ReferenceError (name @ '' is not defined''))"

definition as_shipped :: "env \<Rightarrow> env" where
  "as_shipped e =
     e\<lparr>handlePendingVerification := \<lambda>userId ev. not_defined ''handlePendingVerification'',
       handleOnHoldVerification := \<lambda>userId ev. not_defined ''handleOnHoldVerification'',
       handleUnknownEvent := \<lambda>type userId ev. not_defined ''handleUnknownEvent''\<rparr>"

text \<open>
  \<open>first_occurrence m pre\<close>: in a string \<open>pre @ m @ rest\<close>, the occurrence of \<open>m\<close> behind
  \<open>pre\<close> is the first one, no occurrence starts inside \<open>pre\<close>.
\<close>

definition first_occurrence :: "string \<Rightarrow> string \<Rightarrow> bool" where
  "first_occurrence m pre = (\<not> includes_str (pre @ butlast m) m)"

text \<open>
  The subject id the way the specification words it: behind the first occurrence of the
  marker, all that is left of the string; the string itself without a marker.
\<close>

fun after_first :: "string \<Rightarrow> string \<Rightarrow> string" where
  "after_first m [] = []"
| "after_first m (c # cs) =
     (if prefix m (c # cs) then drop (length m) (c # cs) else after_first m cs)"

definition spec_subjectId :: "string \<Rightarrow> string" where
  "spec_subjectId applicantId =
     (if includes_str applicantId marker then after_first marker applicantId
      else applicantId)"

text \<open>
  Sample inputs for evaluation: a stand-in for the MAC, the event of the specification's
  scenario, an environment whose downstream answers 200 to every call (under \<open>Throw\<close>,
  and the same under \<open>Warn\<close>) and one whose downstream times out on every call.
\<close>

definition stub_hmac :: hmac_fn where
  "stub_hmac key payload = of_nat (length key + 256 * length payload)"

definition sample_event :: event where
  "sample_event =
     \<lparr>ev_type = Some ''applicantReviewed'',
      ev_applicantId = Some ''app_1;externalUserId=user_42'',
      ev_reviewResult =
        Some \<lparr>rr_reviewStatus = Some ''completed'', rr_levelName = None,
               rr_rejectLabels = None\<rparr>,
      ev_inspectionId = None\<rparr>"

definition bogus_event :: event where
  "bogus_event = sample_event\<lparr>ev_type := Some ''applicantBogus''\<rparr>"

definition pending_event :: event where
  "pending_event = sample_event\<lparr>ev_type := Some ''applicantPending'', ev_reviewResult := None\<rparr>"

definition bare_event :: event where
  "bare_event = sample_event\<lparr>ev_applicantId := Some ''app_1;externalUserId=''\<rparr>"

definition sample_body :: string where
  "sample_body = ''sample body''"

definition sample_env :: env where
  "sample_env =
     as_shipped
       \<lparr>hmac = stub_hmac,
        JSON_parse = (\<lambda>body. if body = sample_body then Inr sample_event
                               else Inl (SyntaxError ''Unexpected end of JSON input'')),
        net = (\<lambda>k call. Inr \<lparr>status = 200, data = ''ok''\<rparr>),
        clock = (\<lambda>k. 1000 + k),
        handlePendingVerification = (\<lambda>userId ev. Inr ()),
        handleOnHoldVerification = (\<lambda>userId ev. Inr ()),
        handleUnknownEvent = (\<lambda>type userId ev. Inr ()),
        SUMSUB_WEBHOOK_SECRET = Some ''secret'',
        DEBUG_WEBHOOK = None,
        unhandled_rejections = Throw\<rparr>"

definition warn_env :: env where
  "warn_env = sample_env\<lparr>unhandled_rejections := Warn\<rparr>"

definition down_env :: env where
  "down_env = sample_env\<lparr>net := \<lambda>k call. Inl (AxiosError ''timeout of 40000ms exceeded'')\<rparr>"

definition empty_world :: world where
  "empty_world =
     \<lparr>verificationCache = Map.empty, sent = [], stored = [], unhandled = [],
      exited = False\<rparr>"

definition signed_request :: request where
  "signed_request =
     \<lparr>rawBody = sample_body,
      x_payload_digest = Some (digest_hex (stub_hmac ''secret'' sample_body))\<rparr>"

definition forged_request :: request where
  "forged_request = \<lparr>rawBody = sample_body, x_payload_digest = Some ''deadbeef''\<rparr>"

definition plain_request :: request where
  "plain_request = \<lparr>rawBody = sample_body, x_payload_digest = None\<rparr>"

text \<open>
  \<open>quiet e\<close>: no error that the downstream or a handler raises carries the text
  \<open>Invalid webhook signature\<close> in its message. The \<open>catch\<close> of \<open>server.js\<close> tells
  authentication failures from the others by that text.
\<close>

definition names_signature :: "error + 'a \<Rightarrow> bool" where
  "names_signature r =
     (case r of
        Inl err \<Rightarrow> includes_str (message err) ''Invalid webhook signature''
      | Inr v \<Rightarrow> False)"

definition quiet :: "env \<Rightarrow> bool" where
  "quiet e =
     ((\<forall>k call. \<not> names_signature (net e k call))
      \<and> (\<forall>u ev. \<not> names_signature (handlePendingVerification e u ev))
      \<and> (\<forall>u ev. \<not> names_signature (handleOnHoldVerification e u ev))
      \<and> (\<forall>t u ev. \<not> names_signature (handleUnknownEvent e t u ev)))"

text \<open>
  The \<open>createdAt\<close> of the verification data cached under a key (\<open>receivedAt\<close> for an
  entry of the second copy).
\<close>

definition cached_createdAt :: "world \<Rightarrow> string option \<Rightarrow> nat option" where
  "cached_createdAt s key =
     (case verificationCache s key of
        Some (VerificationData vd) \<Rightarrow> Some (wp_createdAt (vd_payload vd))
      | Some (VerificationData2 vd) \<Rightarrow> Some (vd2_receivedAt vd)
      | _ \<Rightarrow> None)"

text \<open>
  The verification data \<open>handleWebhookEvent\<close> builds after the downstream has answered
  \<open>r\<close> to the post made in state \<open>s\<close>.
\<close>

definition cached :: "env \<Rightarrow> world \<Rightarrow> event \<Rightarrow> string \<Rightarrow> http_response \<Rightarrow> verification_data" where
  "cached e s ev a r =
     \<lparr>vd_payload = webhookPayload e s ev a, vd_djangoResponse = data r,
      vd_processedAt = clock e (Suc (length (sent s)))\<rparr>"

section \<open>Facts about the string functions\<close>

lemma length_digest_hex: "length (digest_hex w) = 64"
  by (simp add: digest_hex_def)

text \<open>\<open>includes_str\<close> is the contiguous-sublist relation of the library.\<close>

lemma includes_str_sublist: "includes_str s m = sublist m s"
  by (induction s) (auto simp: sublist_Cons_right)

lemma split_absent: "\<not> includes_str s m \<Longrightarrow> split m s = [s]"
  by (induction s) (auto split: list.splits)

lemma prefix_shorter:
  assumes "prefix m (xs @ ys)" and "length m \<le> length xs"
  shows "prefix m xs"
  using assms by (metis prefix_length_prefix prefixI)

text \<open>
  Before the first occurrence nothing matches: one step of the scan over \<open>c # pre\<close>.
\<close>

lemma first_occurrence_step:
  assumes "m \<noteq> []" and "first_occurrence m (c # pre)"
  shows "\<not> prefix m (c # pre @ m @ rest)" and "first_occurrence m pre"
proof -
  have np: "\<not> prefix m (c # pre @ butlast m)"
    using assms(2) by (simp add: first_occurrence_def)
  show "first_occurrence m pre"
    using assms(2) by (simp add: first_occurrence_def)
  show "\<not> prefix m (c # pre @ m @ rest)"
  proof
    assume p: "prefix m (c # pre @ m @ rest)"
    have "c # pre @ m @ rest = (c # pre @ butlast m) @ (last m # rest)"
      using assms(1) by simp
    with p have "prefix m ((c # pre @ butlast m) @ (last m # rest))"
      by simp
    moreover have "length m \<le> length (c # pre @ butlast m)"
      using assms(1) by (cases m) auto
    ultimately have "prefix m (c # pre @ butlast m)"
      by (rule prefix_shorter)
    with np show False by contradiction
  qed
qed

lemma split_first:
  assumes "m \<noteq> []" and "first_occurrence m pre"
  shows "split m (pre @ m @ rest) = pre # split m rest"
  using assms
proof (induction pre)
  case Nil
  then show ?case by (cases m) auto
next
  case (Cons c pre)
  from first_occurrence_step[OF Cons.prems] Cons.IH[OF Cons.prems(1)]
  show ?case by simp
qed

text \<open>The specification's wording, on a string cut at the first occurrence.\<close>

lemma after_first_first:
  assumes "m \<noteq> []" and "first_occurrence m pre"
  shows "after_first m (pre @ m @ rest) = rest"
  using assms
proof (induction pre)
  case Nil
  then show ?case by (cases m) auto
next
  case (Cons c pre)
  from first_occurrence_step[OF Cons.prems] Cons.IH[OF Cons.prems(1)]
  show ?case by simp
qed

lemma marker_not_nil: "marker \<noteq> []"
  by (simp add: marker_def)

lemma includes_marker_append: "includes_str (pre @ marker @ rest) marker"
  by (simp add: includes_str_sublist sublist_def) blast

lemma externalUserId_absent: "\<not> includes_str a marker \<Longrightarrow> externalUserId a = Some a"
  by (simp add: externalUserId_def)

lemma externalUserId_once:
  assumes "first_occurrence marker pre" and "\<not> includes_str rest marker"
  shows "externalUserId (pre @ marker @ rest) = Some rest"
  using assms
  by (simp add: externalUserId_def includes_marker_append split_first[OF marker_not_nil]
      split_absent at_index_def)

lemma externalUserId_twice:
  assumes "first_occurrence marker pre" and "first_occurrence marker mid"
  shows "externalUserId (pre @ marker @ mid @ marker @ rest) = Some mid"
  using assms
  by (simp add: externalUserId_def includes_marker_append split_first[OF marker_not_nil]
      at_index_def)

lemma externalUserId2_eq: "externalUserId2 a = or_else (externalUserId a) a"
  by (auto simp: externalUserId2_def externalUserId_def split_absent at_index_def or_else_def)

lemma split_not_nil: "split m s \<noteq> []"
  by (induction m s rule: split.induct) (auto split: list.splits)

lemma split_two: "m \<noteq> [] \<Longrightarrow> includes_str s m \<Longrightarrow> 2 \<le> length (split m s)"
proof (induction s)
  case Nil
  then show ?case by simp
next
  case (Cons c cs)
  show ?case
  proof (cases "prefix m (c # cs)")
    case True
    then show ?thesis
      using split_not_nil [of m "drop (length m - 1) cs"]
      by (cases "split m (drop (length m - 1) cs)") auto
  next
    case False
    then have "includes_str cs m" using Cons.prems by simp
    from Cons.IH[OF Cons.prems(1) this] False show ?thesis
      by (auto split: list.splits)
  qed
qed

text \<open>The subject id of the first copy is never \<open>undefined\<close>.\<close>

lemma externalUserId_defined: "\<exists>u. externalUserId a = Some u"
  using split_two [OF marker_not_nil, of a]
  by (auto simp: externalUserId_def at_index_def)

section \<open>Facts about the verification and the handler\<close>

lemma verify_cases:
  "verifyWebhookSignature h b sg sec = Inr True
   \<or> verifyWebhookSignature h b sg sec = Inl (Error ''Missing x-payload-digest header'')
   \<or> verifyWebhookSignature h b sg sec = Inl (Error ''Invalid webhook signature'')"
  by (simp add: verifyWebhookSignature_def Let_def split: option.splits)

lemma verify_own_digest:
  "verifyWebhookSignature h P (Some (digest_hex (h S P))) (Some S) = Inr True"
proof -
  have "digest_hex (h S P) \<noteq> []"
    using length_digest_hex [of "h S P"] by auto
  then show ?thesis
    by (simp add: verifyWebhookSignature_def timingSafeEqual_def)
qed

text \<open>
  The handler of \<open>server.js\<close> without its guard: the test of the promise never fires.
\<close>

lemma verify_true_iff:
  "verifyWebhookSignature h b sg sec = Inr True
     \<longleftrightarrow> falsy sec \<or> (\<exists>S. sec = Some S \<and> sg = Some (digest_hex (h S b)))"
proof -
  have "digest_hex (h S b) \<noteq> []" for S
    using length_digest_hex [of "h S b"] by auto
  then show ?thesis
    by (auto simp: verifyWebhookSignature_def falsy_def timingSafeEqual_def Let_def
        split: option.splits)
qed

lemma sumsub_webhook_unawaited:
  "sumsub_webhook e s req =
     (if falsy (SUMSUB_WEBHOOK_SECRET e)
      then (Some (server_catch (Error ''SUMSUB_WEBHOOK_SECRET is not configured'')), s)
      else if DEBUG_WEBHOOK e = Some ''true'' then answered (server_debug e s req)
      else if rejected (isValid_server e req) \<and> unhandled_rejections e = Throw
      then server_until_exit e (unawaited s (isValid_server e req)) req
      else answered (server_process e (unawaited s (isValid_server e req)) req))"
  by (simp add: sumsub_webhook_def isValid_server_def Let_def)

text \<open>
  The two ways the handler of \<open>server.js\<close> goes on behind the verification: the promise
  was fulfilled, or it was rejected.
\<close>

lemma sumsub_webhook_fulfilled:
  assumes "\<not> falsy (SUMSUB_WEBHOOK_SECRET e)" and "DEBUG_WEBHOOK e \<noteq> Some ''true''"
    and "verifyWebhookSignature (hmac e) (rawBody req) (x_payload_digest req)
           (SUMSUB_WEBHOOK_SECRET e) = Inr v"
  shows "sumsub_webhook e s req = answered (server_process e s req)"
  using assms
  by (simp add: sumsub_webhook_unawaited isValid_server_def unawaited_def rejected_def)

lemma sumsub_webhook_rejected:
  assumes "\<not> falsy (SUMSUB_WEBHOOK_SECRET e)" and "DEBUG_WEBHOOK e \<noteq> Some ''true''"
    and "verifyWebhookSignature (hmac e) (rawBody req) (x_payload_digest req)
           (SUMSUB_WEBHOOK_SECRET e) = Inl err"
  shows "sumsub_webhook e s req =
           (case unhandled_rejections e of
              Warn \<Rightarrow> answered (server_process e (s\<lparr>unhandled := unhandled s @ [err]\<rparr>) req)
            | Throw \<Rightarrow> server_until_exit e (s\<lparr>unhandled := unhandled s @ [err]\<rparr>) req)"
  using assms
  by (simp add: sumsub_webhook_unawaited isValid_server_def unawaited_def rejected_def
      split: rejection_mode.splits)

text \<open>
  \<open>processWebhookEvent\<close> reaches \<open>handleUnknownEvent\<close> for no known type: with another
  function in its place the four known types are processed the same.
\<close>

lemma processWebhookEvent_known:
  assumes "t \<in> {''applicantReviewed'', ''applicantPending'', ''applicantCreated'', ''applicantOnHold''}"
  shows "processWebhookEvent (e\<lparr>handleUnknownEvent := h'\<rparr>) s (Some t) u rs ev
           = processWebhookEvent e s (Some t) u rs ev"
  using assms
  by (auto simp: processWebhookEvent_def handleNewApplicant_def axios_post_def)

lemma handle_no_applicantId:
  assumes "ev_applicantId ev = None"
  shows "\<exists>m. handleWebhookEvent e s ev = (Inl (TypeError m), s)"
    and "\<exists>m. handleWebhookEvent2 e s ev = (Inl (TypeError m), s)"
  using assms by (simp_all add: handleWebhookEvent_def handleWebhookEvent2_def)

lemma processWebhookEvent_keeps:
  assumes "processWebhookEvent e s t u rs ev = (r, s')"
  shows "verificationCache s' = verificationCache s \<and> stored s' = stored s
         \<and> unhandled s' = unhandled s \<and> (\<exists>xs. sent s' = sent s @ xs)"
  using assms
  by (auto simp: processWebhookEvent_def handleCompletedVerification_def
        handleRejectedVerification_def handleNewApplicant_def axios_post_def
      split: option.splits if_splits sum.splits prod.splits)

lemma processing_failed_eq:
  "processing_failed e s p err =
     (Inl (Error (''Webhook processing failed: '' @ message err)),
      s\<lparr>stored := stored s @ [FailedWebhook \<lparr>fw_payload = p, fw_error_message = message err,
            fw_error_timestamp = clock e (length (sent s)), fw_retryCount = 0\<rparr>]\<rparr>)"
  by (simp add: processing_failed_def storeFailedWebhook_def new_Date_def)

lemma handle_forward_fails:
  assumes "ev_applicantId ev = Some a"
    and "net e (length (sent s)) (PostWebhook (webhookPayload e s ev a)) = Inl err"
  shows "handleWebhookEvent e s ev =
           processing_failed e (s\<lparr>sent := sent s @ [PostWebhook (webhookPayload e s ev a)]\<rparr>)
             (webhookPayload e s ev a) err"
  using assms by (simp add: handleWebhookEvent_def axios_post_def Let_def)

lemma handle_forward_ok:
  assumes "ev_applicantId ev = Some a"
    and "net e (length (sent s)) (PostWebhook (webhookPayload e s ev a)) = Inr r"
  shows "handleWebhookEvent e s ev =
     (case processWebhookEvent e
             (s\<lparr>sent := sent s @ [PostWebhook (webhookPayload e s ev a)],
                verificationCache := (verificationCache s)(externalUserId a \<mapsto>
                   VerificationData (cached e s ev a r))\<rparr>)
             (ev_type ev) (externalUserId a) (rr_reviewStatus (reviewResult_of ev)) ev of
        (Inl err, s3) \<Rightarrow> processing_failed e s3 (webhookPayload e s ev a) err
      | (Inr u, s3) \<Rightarrow>
          (Inr \<lparr>hr_status = ''processed'', hr_djangoResponse = data r,
                hr_verificationData = cached e s ev a r\<rparr>, s3))"
proof -
  have wp: "wp_externalUserId (webhookPayload e s ev a) = externalUserId a"
    by (simp add: webhookPayload_def)
  show ?thesis
    unfolding cached_def using assms
    by (simp add: handleWebhookEvent_def axios_post_def Let_def new_Date_def wp)
qed

lemma handle_forward_ok_state:
  assumes "ev_applicantId ev = Some a"
    and "net e (length (sent s)) (PostWebhook (webhookPayload e s ev a)) = Inr r"
  shows "verificationCache (snd (handleWebhookEvent e s ev)) =
           (verificationCache s)(externalUserId a \<mapsto> VerificationData (cached e s ev a r))"
    and "\<exists>xs. sent (snd (handleWebhookEvent e s ev)) =
           sent s @ PostWebhook (webhookPayload e s ev a) # xs"
proof -
  let ?s2 = "s\<lparr>sent := sent s @ [PostWebhook (webhookPayload e s ev a)],
                verificationCache := (verificationCache s)(externalUserId a \<mapsto>
                   VerificationData (cached e s ev a r))\<rparr>"
  obtain q s3 where q: "processWebhookEvent e ?s2 (ev_type ev) (externalUserId a)
      (rr_reviewStatus (reviewResult_of ev)) ev = (q, s3)"
    by (cases "processWebhookEvent e ?s2 (ev_type ev) (externalUserId a)
      (rr_reviewStatus (reviewResult_of ev)) ev") auto
  from processWebhookEvent_keeps[OF q] obtain xs where
    k: "verificationCache s3 = verificationCache ?s2" "sent s3 = sent ?s2 @ xs" by auto
  have h: "snd (handleWebhookEvent e s ev) =
      (case q of Inl er \<Rightarrow> snd (processing_failed e s3 (webhookPayload e s ev a) er) | Inr u \<Rightarrow> s3)"
    by (simp add: handle_forward_ok[OF assms] q split: sum.splits)
  show "verificationCache (snd (handleWebhookEvent e s ev)) =
           (verificationCache s)(externalUserId a \<mapsto> VerificationData (cached e s ev a r))"
    using h k by (cases q) (auto simp: processing_failed_eq)
  show "\<exists>xs. sent (snd (handleWebhookEvent e s ev)) =
           sent s @ PostWebhook (webhookPayload e s ev a) # xs"
    using h k by (cases q) (auto simp: processing_failed_eq)
qed


lemma handle_posts:
  assumes "ev_applicantId ev = Some a"
  shows "\<exists>xs. sent (snd (handleWebhookEvent e s ev)) =
           sent s @ PostWebhook (webhookPayload e s ev a) # xs"
proof (cases "net e (length (sent s)) (PostWebhook (webhookPayload e s ev a))")
  case (Inl err)
  then show ?thesis
    by (simp add: handle_forward_fails[OF assms Inl] processing_failed_eq)
next
  case (Inr r)
  then show ?thesis
    using handle_forward_ok_state(2)[OF assms Inr] by simp
qed

lemma handle_failure_stored:
  assumes "ev_applicantId ev = Some a" and "handleWebhookEvent e s ev = (Inl err, s')"
  shows "\<exists>fw. stored s' = stored s @ [FailedWebhook fw] \<and> fw_payload fw = webhookPayload e s ev a"
proof (cases "net e (length (sent s)) (PostWebhook (webhookPayload e s ev a))")
  case (Inl x)
  then show ?thesis
    using assms by (auto simp: handle_forward_fails processing_failed_eq)
next
  case (Inr r)
  let ?s2 = "s\<lparr>sent := sent s @ [PostWebhook (webhookPayload e s ev a)],
                verificationCache := (verificationCache s)(externalUserId a \<mapsto>
                   VerificationData (cached e s ev a r))\<rparr>"
  obtain q s3 where q: "processWebhookEvent e ?s2 (ev_type ev) (externalUserId a)
      (rr_reviewStatus (reviewResult_of ev)) ev = (q, s3)"
    by (cases "processWebhookEvent e ?s2 (ev_type ev) (externalUserId a)
      (rr_reviewStatus (reviewResult_of ev)) ev") auto
  from processWebhookEvent_keeps[OF q] have k: "stored s3 = stored s" by simp
  show ?thesis
    using assms(2) k unfolding handle_forward_ok[OF assms(1) Inr] q
    by (cases q) (auto simp: processing_failed_eq)
qed

lemma as_shipped_simps:
  "net (as_shipped e) = net e" "clock (as_shipped e) = clock e"
  "hmac (as_shipped e) = hmac e" "JSON_parse (as_shipped e) = JSON_parse e"
  "SUMSUB_WEBHOOK_SECRET (as_shipped e) = SUMSUB_WEBHOOK_SECRET e"
  "DEBUG_WEBHOOK (as_shipped e) = DEBUG_WEBHOOK e"
  "handleUnknownEvent (as_shipped e) t u ev = not_defined ''handleUnknownEvent''"
  "handlePendingVerification (as_shipped e) u ev = not_defined ''handlePendingVerification''"
  "handleOnHoldVerification (as_shipped e) u ev = not_defined ''handleOnHoldVerification''"
  by (simp_all add: as_shipped_def)

lemma webhookPayload_as_shipped: "webhookPayload (as_shipped e) s ev a = webhookPayload e s ev a"
  by (simp add: webhookPayload_def new_Date_def as_shipped_simps)

lemma processWebhookEvent_unknown:
  assumes "t \<notin> {''applicantReviewed'', ''applicantPending'', ''applicantCreated'', ''applicantOnHold''}"
  shows "processWebhookEvent e s (Some t) u rs ev = (handleUnknownEvent e t u ev, s)"
  using assms by (simp add: processWebhookEvent_def)

text \<open>
  Errors on their way to the \<open>catch\<close> of \<open>server.js\<close>: the prefix that
  \<open>handleWebhookEvent\<close> puts before a message does not bring the text in.
\<close>

lemma failed_prefix_quiet:
  "includes_str (''Webhook processing failed: '' @ m) ''Invalid webhook signature''
     = includes_str m ''Invalid webhook signature''"
  by simp

lemma server_catch_status:
  "res_status (server_catch err) =
     (if includes_str (message err) ''Invalid webhook signature'' then 403 else 200)"
  by (simp add: server_catch_def)

lemma quiet_net:
  assumes "quiet e" and "net e k call = Inl err"
  shows "\<not> includes_str (message err) ''Invalid webhook signature''"
  using assms by (auto simp: quiet_def names_signature_def split: sum.splits)

lemma quiet_process:
  assumes "quiet e" and "processWebhookEvent e s t u rs ev = (Inl err, s')"
  shows "\<not> includes_str (message err) ''Invalid webhook signature''"
proof -
  have p: "\<not> includes_str (message x) ''Invalid webhook signature''"
    if "handlePendingVerification e u ev = Inl x" for x
    using assms(1) that by (auto simp: quiet_def names_signature_def split: sum.splits)
  have h: "\<not> includes_str (message x) ''Invalid webhook signature''"
    if "handleOnHoldVerification e u ev = Inl x" for x
    using assms(1) that by (auto simp: quiet_def names_signature_def split: sum.splits)
  have k: "\<not> includes_str (message x) ''Invalid webhook signature''"
    if "handleUnknownEvent e t' u ev = Inl x" for x t'
    using assms(1) that by (auto simp: quiet_def names_signature_def split: sum.splits)
  have n: "\<not> includes_str (message x) ''Invalid webhook signature''"
    if "net e i call = Inl x" for x i call
    using quiet_net[OF assms(1) that] .
  show ?thesis
    using assms(2) p h k n
    by (auto simp: processWebhookEvent_def handleCompletedVerification_def
        handleRejectedVerification_def handleNewApplicant_def axios_post_def
        split: option.splits if_splits sum.splits prod.splits)
qed

lemma quiet_handle:
  assumes "quiet e" and "handleWebhookEvent e s ev = (Inl err, s')"
  shows "\<not> includes_str (message err) ''Invalid webhook signature''"
proof (cases "ev_applicantId ev")
  case None
  then show ?thesis using assms(2) by (auto simp: handleWebhookEvent_def)
next
  case (Some a)
  show ?thesis
  proof (cases "net e (length (sent s)) (PostWebhook (webhookPayload e s ev a))")
    case (Inl x)
    then show ?thesis
      using assms(2) quiet_net[OF assms(1) Inl]
      by (auto simp: handle_forward_fails[OF Some Inl] processing_failed_eq)
  next
    case (Inr r)
    let ?s2 = "s\<lparr>sent := sent s @ [PostWebhook (webhookPayload e s ev a)],
                verificationCache := (verificationCache s)(externalUserId a \<mapsto>
                   VerificationData (cached e s ev a r))\<rparr>"
    obtain q s3 where q: "processWebhookEvent e ?s2 (ev_type ev) (externalUserId a)
        (rr_reviewStatus (reviewResult_of ev)) ev = (q, s3)"
      by (cases "processWebhookEvent e ?s2 (ev_type ev) (externalUserId a)
        (rr_reviewStatus (reviewResult_of ev)) ev") auto
    show ?thesis
    proof (cases q)
      case (Inl x)
      from quiet_process[OF assms(1) q[unfolded Inl]] assms(2) show ?thesis
        unfolding handle_forward_ok[OF Some Inr] q Inl
        by (auto simp: processing_failed_eq)
    next
      case (Inr v)
      with assms(2) show ?thesis
        unfolding handle_forward_ok[OF Some \<open>net e (length (sent s)) (PostWebhook (webhookPayload e s ev a)) = Inr r\<close>] q
        by simp
    qed
  qed
qed

lemma server_process_status:
  assumes "quiet e" and "JSON_parse e (rawBody req) = Inr ev"
  shows "res_status (fst (server_process e s req)) = 200"
proof (cases "handleWebhookEvent e s ev")
  case (Pair q s1)
  show ?thesis
  proof (cases q)
    case (Inl err)
    with quiet_handle[OF assms(1)] Pair show ?thesis
      by (simp add: server_process_def assms(2) server_catch_status)
  next
    case (Inr result)
    with Pair show ?thesis
      by (simp add: server_process_def assms(2) forwardToDjango_def axios_post_def
          storeFailedWebhook_def split: sum.splits)
  qed
qed

lemma server_debug_status:
  assumes "quiet e" and "JSON_parse e (rawBody req) = Inr ev"
  shows "res_status (fst (server_debug e s req)) = 200"
proof (cases "handleWebhookEvent e s ev")
  case (Pair q s1)
  show ?thesis
  proof (cases q)
    case (Inl err)
    with quiet_handle[OF assms(1)] Pair show ?thesis
      by (simp add: server_debug_def assms(2) server_catch_status)
  next
    case (Inr result)
    with Pair quiet_net[OF assms(1)] show ?thesis
      by (auto simp: server_debug_def assms(2) forwardToDjango_def axios_post_def
          server_catch_status split: sum.splits)
  qed
qed

lemma old_process_forward_fails:
  assumes "JSON_parse e (rawBody req) = Inr ev" and "ev_applicantId ev = Some a"
    and "net e (length (sent s)) (PostWebhook (webhookPayload e s ev a)) = Inl err"
  shows "fst (old_process e s req reply) =
           old_catch (Error (''Webhook processing failed: '' @ message err))"
  by (simp add: old_process_def assms(1) handle_forward_fails[OF assms(2,3)] processing_failed_eq)

text \<open>\<open>handleWebhookEvent\<close> of the second copy, by what the downstream answers.\<close>

lemma handle2_eq:
  assumes "ev_applicantId ev = Some a"
  shows "handleWebhookEvent2 e s ev =
     (case net e (length (sent s)) (PostWebhook2 (webhookBody2 ev a)) of
        Inl err \<Rightarrow>
          (Inl err,
           s\<lparr>sent := sent s @ [PostWebhook2 (webhookBody2 ev a)],
             stored := stored s @
               [FailedWebhook2
                  \<lparr>fw2_type = ev_type ev, fw2_applicantId = a,
                   fw2_externalUserId = externalUserId2 a,
                   fw2_reviewResult = ev_reviewResult ev,
                   fw2_timestamp = clock e (Suc (length (sent s)))\<rparr>]\<rparr>)
      | Inr r \<Rightarrow>
          if status r = 200
          then (Inr (Some \<lparr>hr2_status = ''processed'', hr2_djangoResponse = data r\<rparr>),
                s\<lparr>sent := sent s @ [PostWebhook2 (webhookBody2 ev a)],
                  verificationCache :=
                    (verificationCache s)
                      (Some (externalUserId2 a) \<mapsto>
                         VerificationData2
                           ((verificationData2 e s ev a)
                              \<lparr>vd2_receivedAt := clock e (Suc (length (sent s)))\<rparr>))\<rparr>)
          else (Inr None, s\<lparr>sent := sent s @ [PostWebhook2 (webhookBody2 ev a)]\<rparr>))"
  using assms
  by (simp add: handleWebhookEvent2_def axios_post_def storeFailedWebhook_def new_Date_def
      verificationData2_def split: sum.splits)

text \<open>An event of an unknown type in the first copy, and an event in the second.\<close>

lemma unknown_type_first_copy:
  "ev_type ev = Some t
   \<and> t \<notin> {''applicantReviewed'', ''applicantPending'', ''applicantCreated'', ''applicantOnHold''}
   \<and> ev_applicantId ev = Some a \<longrightarrow>
     wp_type (webhookPayload e s ev a) = Some t
     \<and> sent (snd (handleWebhookEvent e s ev)) = sent s @ [PostWebhook (webhookPayload e s ev a)]
     \<and> processWebhookEvent e s (Some t) u rs ev = (handleUnknownEvent e t u ev, s)
     \<and> (case net e (length (sent s)) (PostWebhook (webhookPayload e s ev a)) of
          Inl err \<Rightarrow>
            fst (handleWebhookEvent e s ev)
              = Inl (Error (''Webhook processing failed: '' @ message err))
        | Inr r \<Rightarrow>
            verificationCache (snd (handleWebhookEvent e s ev)) (externalUserId a)
              = Some (VerificationData (cached e s ev a r))
            \<and> fst (handleWebhookEvent e s ev)
              = (case handleUnknownEvent e t (externalUserId a) ev of
                   Inl err \<Rightarrow> Inl (Error (''Webhook processing failed: '' @ message err))
                 | Inr v \<Rightarrow>
                     Inr \<lparr>hr_status = ''processed'', hr_djangoResponse = data r,
                          hr_verificationData = cached e s ev a r\<rparr>))
     \<and> (\<forall>err. fst (handleWebhookEvent e s ev) = Inl err \<longrightarrow>
          (\<exists>fw. stored (snd (handleWebhookEvent e s ev)) = stored s @ [FailedWebhook fw]
                \<and> fw_payload fw = webhookPayload e s ev a))"
proof (intro impI, elim conjE)
  assume t: "ev_type ev = Some t"
    and u: "t \<notin> {''applicantReviewed'', ''applicantPending'', ''applicantCreated'', ''applicantOnHold''}"
    and a: "ev_applicantId ev = Some a"
  note pu = processWebhookEvent_unknown[OF u]
  have 1: "wp_type (webhookPayload e s ev a) = Some t"
    using t by (simp add: webhookPayload_def)
  have 3: "processWebhookEvent e s (Some t) u rs ev = (handleUnknownEvent e t u ev, s)"
    by (rule pu)
  have 5: "\<forall>err. fst (handleWebhookEvent e s ev) = Inl err \<longrightarrow>
          (\<exists>fw. stored (snd (handleWebhookEvent e s ev)) = stored s @ [FailedWebhook fw]
                \<and> fw_payload fw = webhookPayload e s ev a)"
    using handle_failure_stored[OF a, of e s] by (metis prod.collapse)
  have 24: "sent (snd (handleWebhookEvent e s ev)) = sent s @ [PostWebhook (webhookPayload e s ev a)]
     \<and> (case net e (length (sent s)) (PostWebhook (webhookPayload e s ev a)) of
          Inl err \<Rightarrow>
            fst (handleWebhookEvent e s ev)
              = Inl (Error (''Webhook processing failed: '' @ message err))
        | Inr r \<Rightarrow>
            verificationCache (snd (handleWebhookEvent e s ev)) (externalUserId a)
              = Some (VerificationData (cached e s ev a r))
            \<and> fst (handleWebhookEvent e s ev)
              = (case handleUnknownEvent e t (externalUserId a) ev of
                   Inl err \<Rightarrow> Inl (Error (''Webhook processing failed: '' @ message err))
                 | Inr v \<Rightarrow>
                     Inr \<lparr>hr_status = ''processed'', hr_djangoResponse = data r,
                          hr_verificationData = cached e s ev a r\<rparr>))"
  proof (cases "net e (length (sent s)) (PostWebhook (webhookPayload e s ev a))")
    case (Inl err)
    then show ?thesis
      by (simp add: handle_forward_fails[OF a Inl] processing_failed_eq)
  next
    case (Inr r)
    show ?thesis
      unfolding handle_forward_ok[OF a Inr]
      using Inr
      by (simp add: t pu processing_failed_eq split: sum.splits)
  qed
  from 1 3 5 24 show "wp_type (webhookPayload e s ev a) = Some t
     \<and> sent (snd (handleWebhookEvent e s ev)) = sent s @ [PostWebhook (webhookPayload e s ev a)]
     \<and> processWebhookEvent e s (Some t) u rs ev = (handleUnknownEvent e t u ev, s)
     \<and> (case net e (length (sent s)) (PostWebhook (webhookPayload e s ev a)) of
          Inl err \<Rightarrow>
            fst (handleWebhookEvent e s ev)
              = Inl (Error (''Webhook processing failed: '' @ message err))
        | Inr r \<Rightarrow>
            verificationCache (snd (handleWebhookEvent e s ev)) (externalUserId a)
              = Some (VerificationData (cached e s ev a r))
            \<and> fst (handleWebhookEvent e s ev)
              = (case handleUnknownEvent e t (externalUserId a) ev of
                   Inl err \<Rightarrow> Inl (Error (''Webhook processing failed: '' @ message err))
                 | Inr v \<Rightarrow>
                     Inr \<lparr>hr_status = ''processed'', hr_djangoResponse = data r,
                          hr_verificationData = cached e s ev a r\<rparr>))
     \<and> (\<forall>err. fst (handleWebhookEvent e s ev) = Inl err \<longrightarrow>
          (\<exists>fw. stored (snd (handleWebhookEvent e s ev)) = stored s @ [FailedWebhook fw]
                \<and> fw_payload fw = webhookPayload e s ev a))"
    by blast
qed

lemma unknown_type_second_copy:
  assumes "ev_type ev = Some t" and "ev_applicantId ev = Some a"
  shows "wb_type (webhookBody2 ev a) = Some t
     \<and> sent (snd (handleWebhookEvent2 e s ev)) = sent s @ [PostWebhook2 (webhookBody2 ev a)]
     \<and> (case net e (length (sent s)) (PostWebhook2 (webhookBody2 ev a)) of
          Inl err \<Rightarrow>
            fst (handleWebhookEvent2 e s ev) = Inl err
            \<and> (\<exists>fw. stored (snd (handleWebhookEvent2 e s ev)) = stored s @ [FailedWebhook2 fw]
                  \<and> fw2_type fw = Some t)
        | Inr r \<Rightarrow>
            fst (handleWebhookEvent2 e s ev)
              = Inr (if status r = 200
                     then Some \<lparr>hr2_status = ''processed'', hr2_djangoResponse = data r\<rparr>
                     else None)
            \<and> (if status r = 200
                 then \<exists>vd. verificationCache (snd (handleWebhookEvent2 e s ev))
                              (Some (externalUserId2 a)) = Some (VerificationData2 vd)
                           \<and> vd2_eventType vd = Some t
                 else verificationCache (snd (handleWebhookEvent2 e s ev)) = verificationCache s))"
  using assms(1)
  by (simp add: handle2_eq[OF assms(2)] webhookBody2_def verificationData2_def split: sum.splits)

text \<open>The sample inputs, field by field.\<close>

lemma sample_env_simps:
  "hmac sample_env = stub_hmac"
  "SUMSUB_WEBHOOK_SECRET sample_env = Some ''secret''"
  "DEBUG_WEBHOOK sample_env = None"
  "JSON_parse sample_env sample_body = Inr sample_event"
  "net sample_env k call = Inr \<lparr>status = 200, data = ''ok''\<rparr>"
  "clock sample_env k = 1000 + k"
  "unhandled_rejections sample_env = Throw"
  by (simp_all add: sample_env_def as_shipped_def)

lemma warn_env_simps:
  "hmac warn_env = stub_hmac"
  "SUMSUB_WEBHOOK_SECRET warn_env = Some ''secret''"
  "DEBUG_WEBHOOK warn_env = None"
  "JSON_parse warn_env sample_body = Inr sample_event"
  "unhandled_rejections warn_env = Warn"
  by (simp_all add: warn_env_def sample_env_def as_shipped_def)

lemma down_env_simps:
  "hmac down_env = stub_hmac"
  "SUMSUB_WEBHOOK_SECRET down_env = Some ''secret''"
  "DEBUG_WEBHOOK down_env = None"
  "JSON_parse down_env sample_body = Inr sample_event"
  "net down_env k call = Inl (AxiosError ''timeout of 40000ms exceeded'')"
  "clock down_env k = 1000 + k"
  by (simp_all add: down_env_def sample_env_def as_shipped_def)

lemma request_simps:
  "rawBody signed_request = sample_body"
  "x_payload_digest signed_request = Some (digest_hex (stub_hmac ''secret'' sample_body))"
  "rawBody forged_request = sample_body"
  "x_payload_digest forged_request = Some ''deadbeef''"
  by (simp_all add: signed_request_def forged_request_def)

lemma forged_rejected:
  "verifyWebhookSignature stub_hmac sample_body (Some ''deadbeef'') (Some ''secret'')
     = Inl (Error ''Invalid webhook signature'')"
  by (simp add: verifyWebhookSignature_def length_digest_hex)

text \<open>After the signature check only the body of the request is read.\<close>

lemma server_process_body:
  "rawBody req = rawBody req' \<Longrightarrow> server_process e s req = server_process e s req'"
  by (simp add: server_process_def)

lemma old_process_body:
  "rawBody req = rawBody req' \<Longrightarrow> old_process e s req reply = old_process e s req' reply"
  by (simp add: old_process_def)

section \<open>The claims\<close>

subsection \<open>C6: the subject id taken from the applicant id\<close>

text \<open>
  C6 as stated: when the applicant id contains the marker \<open>;externalUserId=\<close>, the subject
  id is the entire remainder of the string behind the first occurrence. It fails on an
  applicant id with two markers: \<open>split(...)[1]\<close> is the piece between the first and the
  second occurrence, here \<open>b\<close>, while the remainder is \<open>b;externalUserId=c\<close>.
\<close>

theorem remainder_counterexample:
  "externalUserId ''a;externalUserId=b;externalUserId=c'' = Some ''b''
   \<and> spec_subjectId ''a;externalUserId=b;externalUserId=c'' = ''b;externalUserId=c''"
  by (simp add: externalUserId_def spec_subjectId_def marker_def at_index_def)

text \<open>
  C6 as amended: without the marker the subject id is the applicant id itself; with the
  marker it is the piece of the string between the first occurrence of the marker and
  the next one, which is the whole remainder when the marker occurs once. The second
  copy of the module takes the same piece, and the applicant id itself when that piece
  is empty.
\<close>

theorem externalUserId_piece:
  "(\<not> includes_str a marker \<longrightarrow> externalUserId a = Some a)
   \<and> (first_occurrence marker pre \<and> \<not> includes_str rest marker
        \<longrightarrow> externalUserId (pre @ marker @ rest) = Some rest)
   \<and> (first_occurrence marker pre \<and> first_occurrence marker mid
        \<longrightarrow> externalUserId (pre @ marker @ mid @ marker @ rest) = Some mid)
   \<and> externalUserId2 a = or_else (externalUserId a) a"
  using externalUserId_absent externalUserId_once externalUserId_twice externalUserId2_eq
  by blast

theorem externalUserId_piece_witness:
  "externalUserId ''app_1'' = Some ''app_1''
   \<and> externalUserId ''app_1;externalUserId=user_42'' = Some ''user_42''
   \<and> externalUserId ''a;externalUserId=b;externalUserId=c'' = Some ''b''
   \<and> externalUserId2 ''app_1;externalUserId=user_42'' = ''user_42''"
  using externalUserId_piece [where a = "''app_1''" and pre = "''app_1''"
      and rest = "''user_42''" and mid = "''b''"]
    externalUserId_piece [where a = "''app_1;externalUserId=user_42''" and pre = "''a''"
      and rest = "''c''" and mid = "''b''"]
  by (simp add: first_occurrence_def marker_def or_else_def)

subsection \<open>C10: the verification never returns false\<close>

text \<open>
  C10: \<open>verifyWebhookSignature\<close> never returns false. It returns true, exactly when the
  secret is unset (or empty) or the signature is the hex digest of the body under the
  secret, and otherwise throws an \<open>Error\<close>; so a caller that tests the returned value
  never sees a failed verification there. In \<open>server.js\<close> the tested value is the
  promise itself, which is truthy; in the older endpoint it is the awaited value, which
  is true whenever there is one. The handler of \<open>server.js\<close> is the same function with
  the guarded branch left out: what it does behind a failed verification is decided by
  the runtime's treatment of the rejected promise, never by the guard.
\<close>

theorem verify_never_false:
  "verifyWebhookSignature h b sg sec \<noteq> Inr False
   \<and> (verifyWebhookSignature h b sg sec = Inr True
        \<or> (\<exists>m. verifyWebhookSignature h b sg sec = Inl (Error m)))
   \<and> (verifyWebhookSignature h b sg sec = Inr True
        \<longleftrightarrow> falsy sec \<or> (\<exists>S. sec = Some S \<and> sg = Some (digest_hex (h S b))))
   \<and> truthy (isValid_server e req)
   \<and> (case verifyWebhookSignature h b sg sec of Inl err \<Rightarrow> True | Inr isValid \<Rightarrow> isValid)
   \<and> sumsub_webhook e s req =
       (if falsy (SUMSUB_WEBHOOK_SECRET e)
        then (Some (server_catch (Error ''SUMSUB_WEBHOOK_SECRET is not configured'')), s)
        else if DEBUG_WEBHOOK e = Some ''true'' then answered (server_debug e s req)
        else if rejected (isValid_server e req) \<and> unhandled_rejections e = Throw
        then server_until_exit e (unawaited s (isValid_server e req)) req
        else answered (server_process e (unawaited s (isValid_server e req)) req))"
proof -
  have 1: "verifyWebhookSignature h b sg sec \<noteq> Inr False
   \<and> (verifyWebhookSignature h b sg sec = Inr True
        \<or> (\<exists>m. verifyWebhookSignature h b sg sec = Inl (Error m)))
   \<and> (case verifyWebhookSignature h b sg sec of Inl err \<Rightarrow> True | Inr isValid \<Rightarrow> isValid)"
    using verify_cases [of h b sg sec] by auto
  have 2: "truthy (isValid_server e req)"
    by (simp add: isValid_server_def)
  from 1 2 verify_true_iff [of h b sg sec] sumsub_webhook_unawaited [of e s req]
  show ?thesis by simp
qed

theorem verify_never_false_witness:
  "verifyWebhookSignature stub_hmac sample_body (Some ''deadbeef'') (Some ''secret'') \<noteq> Inr False
   \<and> verifyWebhookSignature stub_hmac sample_body (Some ''deadbeef'') (Some ''secret'')
       = Inl (Error ''Invalid webhook signature'')
   \<and> truthy (isValid_server sample_env forged_request)"
  using verify_never_false [of stub_hmac sample_body "Some ''deadbeef''" "Some ''secret''"
      sample_env forged_request empty_world]
  by (simp add: forged_rejected)

subsection \<open>C5: verifying the digest, and the digest with a character appended\<close>

text \<open>
  C5 as stated: verifying a payload against its own hex digest returns true, and against
  that digest with one more character returns false. The second half fails: with a
  secret set the function throws \<open>Invalid webhook signature\<close>, it does not return false.
\<close>

theorem appended_signature_counterexample:
  "verifyWebhookSignature stub_hmac sample_body
     (Some (digest_hex (stub_hmac ''secret'' sample_body) @ ''x'')) (Some ''secret'')
   = Inl (Error ''Invalid webhook signature'')"
  by (simp add: verifyWebhookSignature_def length_digest_hex)

text \<open>
  C5 as amended: for every payload \<open>P\<close> and secret \<open>S\<close>, verifying \<open>P\<close> against the hex
  digest of its MAC under \<open>S\<close> returns true; verifying it against that digest with a
  character appended throws \<open>Invalid webhook signature\<close> when \<open>S\<close> is not empty, and
  returns true when \<open>S\<close> is the empty string (the check is skipped).
\<close>

theorem verify_digest:
  "verifyWebhookSignature h P (Some (digest_hex (h S P))) (Some S) = Inr True
   \<and> verifyWebhookSignature h P (Some (digest_hex (h S P) @ ''x'')) (Some S)
       = (if S = [] then Inr True else Inl (Error ''Invalid webhook signature''))"
  using verify_own_digest [of h P S]
  by (simp add: verifyWebhookSignature_def length_digest_hex)

theorem verify_digest_witness:
  "verifyWebhookSignature stub_hmac sample_body
     (Some (digest_hex (stub_hmac ''secret'' sample_body))) (Some ''secret'') = Inr True
   \<and> verifyWebhookSignature stub_hmac sample_body
     (Some (digest_hex (stub_hmac ''secret'' sample_body) @ ''x'')) (Some ''secret'')
       = Inl (Error ''Invalid webhook signature'')"
  using verify_digest [of stub_hmac sample_body "''secret''"]
  by simp

subsection \<open>C2: the secret is not set\<close>

text \<open>
  C2 as stated: with the secret unset the verification signals an outcome of its own,
  not plain success. It fails: the function returns \<open>true\<close>, the value it returns for a
  signature that matches.
\<close>

theorem secret_unset_counterexample:
  "verifyWebhookSignature stub_hmac sample_body (Some ''deadbeef'') None = Inr True
   \<and> verifyWebhookSignature stub_hmac sample_body
        (Some (digest_hex (stub_hmac ''secret'' sample_body))) (Some ''secret'') = Inr True"
  using verify_own_digest [of stub_hmac sample_body "''secret''"]
  by (simp add: verifyWebhookSignature_def)

text \<open>
  C2 as amended: with the secret unset or empty, \<open>verifyWebhookSignature\<close> returns true
  for every payload and signature. The endpoint of \<open>server.js\<close> tests the secret itself
  before anything else: it answers 200 with the error
  \<open>SUMSUB_WEBHOOK_SECRET is not configured\<close> and leaves cache and downstream untouched.
  The older endpoint has no such test and processes the event.
\<close>

theorem secret_unset_plain_success:
  "(falsy sec \<longrightarrow> verifyWebhookSignature h b sg sec = Inr True)
   \<and> (falsy (SUMSUB_WEBHOOK_SECRET e) \<longrightarrow>
         sumsub_webhook e s req =
           (Some \<lparr>res_status = 200,
             res_body = Json [(''error'', ''SUMSUB_WEBHOOK_SECRET is not configured''),
                              (''details'', ''Webhook received but encountered processing error'')]\<rparr>,
            s))
   \<and> (falsy (SUMSUB_WEBHOOK_SECRET e) \<and> DEBUG_WEBHOOK e \<noteq> Some ''true'' \<longrightarrow>
         sumsub_webhook_old e s req = old_process e s req ''Webhook received'')"
  by (auto simp: falsy_def verifyWebhookSignature_def sumsub_webhook_def server_catch_def
      sumsub_webhook_old_def split: option.splits)

theorem secret_unset_plain_success_witness:
  "verifyWebhookSignature stub_hmac sample_body (Some ''deadbeef'') None = Inr True
   \<and> map_option res_status (fst (sumsub_webhook (sample_env\<lparr>SUMSUB_WEBHOOK_SECRET := None\<rparr>)
          empty_world forged_request)) = Some 200
   \<and> snd (sumsub_webhook (sample_env\<lparr>SUMSUB_WEBHOOK_SECRET := None\<rparr>)
          empty_world forged_request) = empty_world
   \<and> res_status (fst (sumsub_webhook_old (sample_env\<lparr>SUMSUB_WEBHOOK_SECRET := None\<rparr>)
          empty_world forged_request)) = 200"
proof -
  have old: "res_status (fst (sumsub_webhook_old (sample_env\<lparr>SUMSUB_WEBHOOK_SECRET := None\<rparr>)
          empty_world forged_request)) = 200"
    by code_simp
  show ?thesis
    using secret_unset_plain_success [of None stub_hmac sample_body "Some ''deadbeef''"
        "sample_env\<lparr>SUMSUB_WEBHOOK_SECRET := None\<rparr>" empty_world forged_request] old
    by (simp add: falsy_def sample_env_def as_shipped_def)
qed

subsection \<open>C1: the cache and the forward\<close>

text \<open>
  C1 as stated: the cache is updated before the forward, so the record is there even when
  the downstream fails. It fails: \<open>handleWebhookEvent\<close> posts first and writes the cache
  behind the \<open>await\<close>; when the post times out the cache has no entry for the subject.
\<close>

theorem cache_not_before_forward_counterexample:
  "sent (snd (handleWebhookEvent down_env empty_world sample_event)) =
     [PostWebhook (webhookPayload down_env empty_world sample_event ''app_1;externalUserId=user_42'')]
   \<and> verificationCache (snd (handleWebhookEvent down_env empty_world sample_event))
        (Some ''user_42'') = None
   \<and> fst (handleWebhookEvent down_env empty_world sample_event) =
        Inl (Error ''Webhook processing failed: timeout of 40000ms exceeded'')"
  by code_simp

text \<open>
  C1 as amended: \<open>handleWebhookEvent\<close> forwards first and writes the cache only once the
  downstream has answered. When the forward fails the cache is left as it was, the
  failure goes to \<open>storeFailedWebhook\<close> and an error is thrown. When the forward succeeds
  the cache holds the verification data under the subject id, whatever the processing
  of the event does afterwards. The second copy of the module has the same order, and
  writes the cache only for an answer with status 200.
\<close>

theorem cache_after_forward:
  "ev_applicantId ev = Some a \<longrightarrow>
     (case net e (length (sent s)) (PostWebhook (webhookPayload e s ev a)) of
        Inl err \<Rightarrow>
          handleWebhookEvent e s ev =
            (Inl (Error (''Webhook processing failed: '' @ message err)),
             s\<lparr>sent := sent s @ [PostWebhook (webhookPayload e s ev a)],
               stored := stored s @
                 [FailedWebhook \<lparr>fw_payload = webhookPayload e s ev a,
                    fw_error_message = message err,
                    fw_error_timestamp = clock e (Suc (length (sent s))),
                    fw_retryCount = 0\<rparr>]\<rparr>)
          \<and> verificationCache (snd (handleWebhookEvent e s ev)) = verificationCache s
      | Inr r \<Rightarrow>
          verificationCache (snd (handleWebhookEvent e s ev)) =
            (verificationCache s)(externalUserId a \<mapsto>
               VerificationData
                 \<lparr>vd_payload = webhookPayload e s ev a, vd_djangoResponse = data r,
                  vd_processedAt = clock e (Suc (length (sent s)))\<rparr>))
     \<and> (case net e (length (sent s)) (PostWebhook2 (webhookBody2 ev a)) of
        Inl err \<Rightarrow>
          fst (handleWebhookEvent2 e s ev) = Inl err
          \<and> verificationCache (snd (handleWebhookEvent2 e s ev)) = verificationCache s
      | Inr r \<Rightarrow>
          verificationCache (snd (handleWebhookEvent2 e s ev)) =
            (if status r = 200
             then (verificationCache s)(Some (externalUserId2 a) \<mapsto>
                    VerificationData2
                      ((verificationData2 e s ev a)
                         \<lparr>vd2_receivedAt := clock e (Suc (length (sent s)))\<rparr>))
             else verificationCache s))"
proof (intro impI conjI)
  assume a: "ev_applicantId ev = Some a"
  show "case net e (length (sent s)) (PostWebhook (webhookPayload e s ev a)) of
        Inl err \<Rightarrow>
          handleWebhookEvent e s ev =
            (Inl (Error (''Webhook processing failed: '' @ message err)),
             s\<lparr>sent := sent s @ [PostWebhook (webhookPayload e s ev a)],
               stored := stored s @
                 [FailedWebhook \<lparr>fw_payload = webhookPayload e s ev a,
                    fw_error_message = message err,
                    fw_error_timestamp = clock e (Suc (length (sent s))),
                    fw_retryCount = 0\<rparr>]\<rparr>)
          \<and> verificationCache (snd (handleWebhookEvent e s ev)) = verificationCache s
      | Inr r \<Rightarrow>
          verificationCache (snd (handleWebhookEvent e s ev)) =
            (verificationCache s)(externalUserId a \<mapsto>
               VerificationData
                 \<lparr>vd_payload = webhookPayload e s ev a, vd_djangoResponse = data r,
                  vd_processedAt = clock e (Suc (length (sent s)))\<rparr>)"
  proof (cases "net e (length (sent s)) (PostWebhook (webhookPayload e s ev a))")
    case (Inl err)
    then show ?thesis
      by (simp add: handle_forward_fails[OF a Inl] processing_failed_eq)
  next
    case (Inr r)
    then show ?thesis
      using handle_forward_ok_state(1)[OF a Inr] by (simp add: cached_def)
  qed
  show "case net e (length (sent s)) (PostWebhook2 (webhookBody2 ev a)) of
        Inl err \<Rightarrow>
          fst (handleWebhookEvent2 e s ev) = Inl err
          \<and> verificationCache (snd (handleWebhookEvent2 e s ev)) = verificationCache s
      | Inr r \<Rightarrow>
          verificationCache (snd (handleWebhookEvent2 e s ev)) =
            (if status r = 200
             then (verificationCache s)(Some (externalUserId2 a) \<mapsto>
                    VerificationData2
                      ((verificationData2 e s ev a)
                         \<lparr>vd2_receivedAt := clock e (Suc (length (sent s)))\<rparr>))
             else verificationCache s)"
    by (simp add: handle2_eq[OF a] split: sum.splits)
qed

theorem cache_after_forward_witness:
  "verificationCache (snd (handleWebhookEvent down_env empty_world sample_event))
     = verificationCache empty_world
   \<and> verificationCache (snd (handleWebhookEvent sample_env empty_world sample_event))
        (Some ''user_42'')
     = Some (VerificationData
         \<lparr>vd_payload = webhookPayload sample_env empty_world sample_event
            ''app_1;externalUserId=user_42'',
          vd_djangoResponse = ''ok'', vd_processedAt = 1001\<rparr>)
   \<and> verificationCache (snd (handleWebhookEvent2 down_env empty_world sample_event))
     = verificationCache empty_world"
proof -
  have u: "externalUserId ''app_1;externalUserId=user_42'' = Some ''user_42''"
    by code_simp
  have a: "ev_applicantId sample_event = Some ''app_1;externalUserId=user_42''"
    by (simp add: sample_event_def)
  have l: "sent empty_world = []"
    by (simp add: empty_world_def)
  from cache_after_forward [of sample_event "''app_1;externalUserId=user_42''" down_env empty_world]
    cache_after_forward [of sample_event "''app_1;externalUserId=user_42''" sample_env empty_world]
  show ?thesis
    by (simp add: a l u down_env_simps sample_env_simps)
qed

subsection \<open>C7: the same event handled twice\<close>




subsection \<open>C8: an event of an unknown type\<close>

text \<open>
  C8 as stated: an event whose type is none of the four known ones signals
  UnknownEventType and is passed on as an event that can be told from the four known
  types. The code has no such signal. The second copy of the module answers an event
  of type \<open>applicantBogus\<close> exactly as it answers the reviewed event of the scenario,
  \<open>processed\<close>. The first copy, as the module stands, fails on it with
  \<open>handleUnknownEvent is not defined\<close>, the way it fails on the known type
  \<open>applicantPending\<close> with \<open>handlePendingVerification is not defined\<close>.
\<close>

theorem unknown_type_counterexample:
  "fst (handleWebhookEvent2 sample_env empty_world bogus_event)
     = Inr (Some \<lparr>hr2_status = ''processed'', hr2_djangoResponse = ''ok''\<rparr>)
   \<and> fst (handleWebhookEvent2 sample_env empty_world sample_event)
     = Inr (Some \<lparr>hr2_status = ''processed'', hr2_djangoResponse = ''ok''\<rparr>)
   \<and> fst (handleWebhookEvent sample_env empty_world bogus_event)
     = Inl (Error ''Webhook processing failed: handleUnknownEvent is not defined'')
   \<and> fst (handleWebhookEvent sample_env empty_world pending_event)
     = Inl (Error ''Webhook processing failed: handlePendingVerification is not defined'')"
  by code_simp

text \<open>
  C8 as amended: an event with an \<open>applicantId\<close> whose type is none of the four known
  ones is not dropped. Both copies of \<open>handleWebhookEvent\<close> post it downstream with the
  provider's type unchanged and, once the downstream has answered (with status 200, in
  the second copy), cache it with that type; the unchanged type is all that tells it
  from the four known types. There is no outcome of its own: the first copy hands
  exactly the types outside the four to \<open>handleUnknownEvent\<close> (the four known types never
  reach it) and returns or fails as that handler does, a failure going to
  \<open>storeFailedWebhook\<close> with the payload; the second copy answers \<open>processed\<close> as for
  a known type. An event without \<open>applicantId\<close> is neither forwarded nor stored: both
  copies throw a TypeError and leave the state as it was.
\<close>

theorem unknown_type_forwarded:
  "(ev_type ev = Some t
   \<and> t \<notin> {''applicantReviewed'', ''applicantPending'', ''applicantCreated'', ''applicantOnHold''}
   \<and> ev_applicantId ev = Some a \<longrightarrow>
     (wp_type (webhookPayload e s ev a) = Some t
     \<and> sent (snd (handleWebhookEvent e s ev)) = sent s @ [PostWebhook (webhookPayload e s ev a)]
     \<and> processWebhookEvent e s (Some t) u rs ev = (handleUnknownEvent e t u ev, s)
     \<and> (case net e (length (sent s)) (PostWebhook (webhookPayload e s ev a)) of
          Inl err \<Rightarrow>
            fst (handleWebhookEvent e s ev)
              = Inl (Error (''Webhook processing failed: '' @ message err))
        | Inr r \<Rightarrow>
            verificationCache (snd (handleWebhookEvent e s ev)) (externalUserId a)
              = Some (VerificationData (cached e s ev a r))
            \<and> fst (handleWebhookEvent e s ev)
              = (case handleUnknownEvent e t (externalUserId a) ev of
                   Inl err \<Rightarrow> Inl (Error (''Webhook processing failed: '' @ message err))
                 | Inr v \<Rightarrow>
                     Inr \<lparr>hr_status = ''processed'', hr_djangoResponse = data r,
                          hr_verificationData = cached e s ev a r\<rparr>))
     \<and> (\<forall>err. fst (handleWebhookEvent e s ev) = Inl err \<longrightarrow>
          (\<exists>fw. stored (snd (handleWebhookEvent e s ev)) = stored s @ [FailedWebhook fw]
                \<and> fw_payload fw = webhookPayload e s ev a)))
     \<and> (wb_type (webhookBody2 ev a) = Some t
     \<and> sent (snd (handleWebhookEvent2 e s ev)) = sent s @ [PostWebhook2 (webhookBody2 ev a)]
     \<and> (case net e (length (sent s)) (PostWebhook2 (webhookBody2 ev a)) of
          Inl err \<Rightarrow>
            fst (handleWebhookEvent2 e s ev) = Inl err
            \<and> (\<exists>fw. stored (snd (handleWebhookEvent2 e s ev)) = stored s @ [FailedWebhook2 fw]
                  \<and> fw2_type fw = Some t)
        | Inr r \<Rightarrow>
            fst (handleWebhookEvent2 e s ev)
              = Inr (if status r = 200
                     then Some \<lparr>hr2_status = ''processed'', hr2_djangoResponse = data r\<rparr>
                     else None)
            \<and> (if status r = 200
                 then \<exists>vd. verificationCache (snd (handleWebhookEvent2 e s ev))
                              (Some (externalUserId2 a)) = Some (VerificationData2 vd)
                           \<and> vd2_eventType vd = Some t
                 else verificationCache (snd (handleWebhookEvent2 e s ev)) = verificationCache s))))
   \<and> (t' \<in> {''applicantReviewed'', ''applicantPending'', ''applicantCreated'', ''applicantOnHold''}
        \<longrightarrow> processWebhookEvent (e\<lparr>handleUnknownEvent := h'\<rparr>) s (Some t') u rs ev
              = processWebhookEvent e s (Some t') u rs ev)
   \<and> (ev_applicantId ev = None
        \<longrightarrow> (\<exists>m. handleWebhookEvent e s ev = (Inl (TypeError m), s))
            \<and> (\<exists>m. handleWebhookEvent2 e s ev = (Inl (TypeError m), s)))"
  (is "(?H \<longrightarrow> ?A \<and> ?B) \<and> (?K \<longrightarrow> ?P) \<and> (?N \<longrightarrow> ?T1 \<and> ?T2)")
proof (rule conjI [OF _ conjI])
  show "?H \<longrightarrow> ?A \<and> ?B"
  proof (rule impI)
    assume h: ?H
    have ?A
      using unknown_type_first_copy [of ev t a e s u rs] h by (rule mp)
    moreover have ?B
      by (rule unknown_type_second_copy [OF h [THEN conjunct1] h [THEN conjunct2, THEN conjunct2]])
    ultimately show "?A \<and> ?B"
      by (rule conjI)
  qed
  show "?K \<longrightarrow> ?P"
    by (rule impI) (rule processWebhookEvent_known)
  show "?N \<longrightarrow> ?T1 \<and> ?T2"
  proof (rule impI)
    assume n: ?N
    show "?T1 \<and> ?T2"
      by (rule conjI [OF handle_no_applicantId(1) [OF n] handle_no_applicantId(2) [OF n]])
  qed
qed

theorem unknown_type_forwarded_witness:
  "wp_type (webhookPayload sample_env empty_world bogus_event ''app_1;externalUserId=user_42'')
     = Some ''applicantBogus''
   \<and> sent (snd (handleWebhookEvent sample_env empty_world bogus_event))
     = [PostWebhook (webhookPayload sample_env empty_world bogus_event
          ''app_1;externalUserId=user_42'')]
   \<and> wb_type (webhookBody2 bogus_event ''app_1;externalUserId=user_42'') = Some ''applicantBogus''
   \<and> sent (snd (handleWebhookEvent2 sample_env empty_world bogus_event))
     = [PostWebhook2 (webhookBody2 bogus_event ''app_1;externalUserId=user_42'')]"
proof -
  let ?a = "''app_1;externalUserId=user_42''"
  have h: "ev_type bogus_event = Some ''applicantBogus''
     \<and> ''applicantBogus'' \<notin> {''applicantReviewed'', ''applicantPending'',
            ''applicantCreated'', ''applicantOnHold''}
     \<and> ev_applicantId bogus_event = Some ?a"
    by (simp add: bogus_event_def sample_event_def)
  note th = unknown_type_forwarded [of bogus_event "''applicantBogus''" ?a
      sample_env empty_world None None, THEN conjunct1, THEN mp, OF h]
  note th1 = th [THEN conjunct1]
  note th2 = th [THEN conjunct2]
  have 1: "wp_type (webhookPayload sample_env empty_world bogus_event ?a) = Some ''applicantBogus''"
    using th1 by (rule conjunct1)
  have 2: "sent (snd (handleWebhookEvent sample_env empty_world bogus_event))
     = [PostWebhook (webhookPayload sample_env empty_world bogus_event ?a)]"
    using th1 [THEN conjunct2, THEN conjunct1] by (simp add: empty_world_def)
  have 3: "wb_type (webhookBody2 bogus_event ?a) = Some ''applicantBogus''"
    using th2 by (rule conjunct1)
  have 4: "sent (snd (handleWebhookEvent2 sample_env empty_world bogus_event))
     = [PostWebhook2 (webhookBody2 bogus_event ?a)]"
    using th2 [THEN conjunct2, THEN conjunct1] by (simp add: empty_world_def)
  from 1 2 3 4 show ?thesis by blast
qed

subsection \<open>C9: an empty subject id\<close>

text \<open>
  C9 as stated: the subject id of a normalised event is never empty; an applicant id
  that yields none is rejected. It fails: for an applicant id that ends at the marker
  the first copy of the module computes the empty subject id, forwards the payload
  with it and caches the record under the empty key.
\<close>

theorem empty_subject_counterexample:
  "externalUserId ''app_1;externalUserId='' = Some []
   \<and> (case fst (handleWebhookEvent sample_env empty_world bare_event) of
         Inl err \<Rightarrow> False
       | Inr r \<Rightarrow> wp_externalUserId (vd_payload (hr_verificationData r)) = Some [])
   \<and> cached_createdAt (snd (handleWebhookEvent sample_env empty_world bare_event)) (Some [])
       = Some 1000"
  by code_simp

text \<open>
  C9 as amended: the subject id is not checked. For an applicant id that ends at the
  first marker the first copy of the module computes the empty subject id and the second
  copy falls back on the whole applicant id; both compute the empty subject id for the
  empty applicant id. Whatever the subject id is, \<open>handleWebhookEvent\<close> posts the payload
  with it.
\<close>

theorem subject_id_unchecked:
  "(first_occurrence marker pre \<longrightarrow>
      externalUserId (pre @ marker) = Some [] \<and> externalUserId2 (pre @ marker) = pre @ marker)
   \<and> externalUserId [] = Some [] \<and> externalUserId2 [] = []
   \<and> (ev_applicantId ev = Some a \<longrightarrow>
        wp_externalUserId (webhookPayload e s ev a) = externalUserId a
        \<and> (\<exists>xs. sent (snd (handleWebhookEvent e s ev)) =
               sent s @ PostWebhook (webhookPayload e s ev a) # xs))"
proof -
  have 1: "externalUserId (pre @ marker) = Some []" if "first_occurrence marker pre"
    using externalUserId_once [OF that, of "[]"] by (simp add: marker_not_nil)
  have 2: "externalUserId2 (pre @ marker) = pre @ marker" if "first_occurrence marker pre"
    using 1 [OF that] by (simp add: externalUserId2_eq or_else_def)
  have 3: "externalUserId [] = Some []" "externalUserId2 [] = []"
    by (simp_all add: externalUserId_def externalUserId2_def marker_def at_index_def or_else_def)
  have 4: "wp_externalUserId (webhookPayload e s ev a) = externalUserId a"
    by (simp add: webhookPayload_def)
  from 1 2 3 4 handle_posts show ?thesis by blast
qed

theorem subject_id_unchecked_witness:
  "externalUserId ''app_1;externalUserId='' = Some []
   \<and> externalUserId2 ''app_1;externalUserId='' = ''app_1;externalUserId=''
   \<and> (\<exists>xs. sent (snd (handleWebhookEvent sample_env empty_world bare_event)) =
          PostWebhook (webhookPayload sample_env empty_world bare_event
             ''app_1;externalUserId='') # xs)"
  using subject_id_unchecked [of "''app_1''" bare_event "''app_1;externalUserId=''"
      sample_env empty_world]
  by (simp add: first_occurrence_def marker_def bare_event_def empty_world_def)

subsection \<open>C3: what the caller sees when the downstream fails\<close>

text \<open>
  C3 as stated: once an event is authenticated and normalised the caller gets a success
  answer even when the forward fails. It fails on the older endpoint, whose single
  \<open>catch\<close> answers 400 to every error: a signed, well-formed event whose forward times
  out is answered 400.
\<close>

theorem old_endpoint_counterexample:
  "verifyWebhookSignature (hmac down_env) (rawBody signed_request)
       (x_payload_digest signed_request) (SUMSUB_WEBHOOK_SECRET down_env) = Inr True
   \<and> JSON_parse down_env (rawBody signed_request) = Inr sample_event
   \<and> fst (sumsub_webhook_old down_env empty_world signed_request) =
       \<lparr>res_status = 400,
        res_body = Json [(''error'', ''Webhook processing failed: timeout of 40000ms exceeded''),
                         (''details'', ''Check server logs for more info'')]\<rparr>"
proof -
  have v: "verifyWebhookSignature (hmac down_env) (rawBody signed_request)
       (x_payload_digest signed_request) (SUMSUB_WEBHOOK_SECRET down_env) = Inr True"
    by (simp add: down_env_simps request_simps verify_own_digest)
  have p: "JSON_parse down_env (rawBody signed_request) = Inr sample_event"
    by (simp add: down_env_simps request_simps)
  have "fst (old_process down_env empty_world plain_request ''Webhook received'') =
       \<lparr>res_status = 400,
        res_body = Json [(''error'', ''Webhook processing failed: timeout of 40000ms exceeded''),
                         (''details'', ''Check server logs for more info'')]\<rparr>"
    by code_simp
  moreover have "old_process down_env empty_world signed_request ''Webhook received''
      = old_process down_env empty_world plain_request ''Webhook received''"
    by (rule old_process_body) (simp add: request_simps plain_request_def)
  ultimately have "fst (sumsub_webhook_old down_env empty_world signed_request) =
       \<lparr>res_status = 400,
        res_body = Json [(''error'', ''Webhook processing failed: timeout of 40000ms exceeded''),
                         (''details'', ''Check server logs for more info'')]\<rparr>"
    using v by (simp add: sumsub_webhook_old_def down_env_simps)
  with v p show ?thesis by blast
qed

text \<open>
  C3 as amended: the endpoint of \<open>server.js\<close> answers 200 to every authenticated event
  whose body parses, whatever the downstream and the handlers do, as long as no error
  they raise carries the text \<open>Invalid webhook signature\<close> in its message (the \<open>catch\<close>
  answers 403 on that text). The older endpoint answers 400 when the forward fails.
\<close>

theorem server_accepts:
  "(\<not> falsy (SUMSUB_WEBHOOK_SECRET e)
     \<and> verifyWebhookSignature (hmac e) (rawBody req) (x_payload_digest req)
          (SUMSUB_WEBHOOK_SECRET e) = Inr True
     \<and> JSON_parse e (rawBody req) = Inr ev \<and> quiet e
    \<longrightarrow> map_option res_status (fst (sumsub_webhook e s req)) = Some 200)
   \<and> (verifyWebhookSignature (hmac e) (rawBody req) (x_payload_digest req)
          (SUMSUB_WEBHOOK_SECRET e) = Inr True
       \<and> JSON_parse e (rawBody req) = Inr ev \<and> ev_applicantId ev = Some a
       \<and> net e (length (sent s)) (PostWebhook (webhookPayload e s ev a)) = Inl err
    \<longrightarrow> res_status (fst (sumsub_webhook_old e s req)) = 400)"
proof (intro conjI impI; elim conjE)
  assume f: "\<not> falsy (SUMSUB_WEBHOOK_SECRET e)" and p: "JSON_parse e (rawBody req) = Inr ev"
    and q: "quiet e"
    and v: "verifyWebhookSignature (hmac e) (rawBody req) (x_payload_digest req)
          (SUMSUB_WEBHOOK_SECRET e) = Inr True"
  have r: "\<not> rejected (isValid_server e req)"
    using v by (simp add: isValid_server_def rejected_def)
  have u: "unawaited s (isValid_server e req) = s"
    using v by (simp add: isValid_server_def unawaited_def)
  show "map_option res_status (fst (sumsub_webhook e s req)) = Some 200"
    using f r u server_process_status [OF q p, of s] server_debug_status [OF q p, of s]
    by (simp add: sumsub_webhook_unawaited answered_def)
next
  assume v: "verifyWebhookSignature (hmac e) (rawBody req) (x_payload_digest req)
          (SUMSUB_WEBHOOK_SECRET e) = Inr True"
    and p: "JSON_parse e (rawBody req) = Inr ev" and a: "ev_applicantId ev = Some a"
    and n: "net e (length (sent s)) (PostWebhook (webhookPayload e s ev a)) = Inl err"
  show "res_status (fst (sumsub_webhook_old e s req)) = 400"
    by (simp add: sumsub_webhook_old_def v old_process_forward_fails[OF p a n] old_catch_def)
qed

theorem server_accepts_witness:
  "map_option res_status (fst (sumsub_webhook down_env empty_world signed_request)) = Some 200
   \<and> res_status (fst (sumsub_webhook_old down_env empty_world signed_request)) = 400"
proof -
  have v: "verifyWebhookSignature (hmac down_env) (rawBody signed_request)
       (x_payload_digest signed_request) (SUMSUB_WEBHOOK_SECRET down_env) = Inr True"
    by (simp add: down_env_simps request_simps verify_own_digest)
  have p: "JSON_parse down_env (rawBody signed_request) = Inr sample_event"
    by (simp add: down_env_simps request_simps)
  have f: "\<not> falsy (SUMSUB_WEBHOOK_SECRET down_env)"
    by (simp add: down_env_simps falsy_def)
  have q: "quiet down_env"
    by (simp add: quiet_def names_signature_def down_env_def sample_env_def as_shipped_def
        not_defined_def)
  have a: "ev_applicantId sample_event = Some ''app_1;externalUserId=user_42''"
    by (simp add: sample_event_def)
  have n: "net down_env (length (sent empty_world))
      (PostWebhook (webhookPayload down_env empty_world sample_event
         ''app_1;externalUserId=user_42'')) = Inl (AxiosError ''timeout of 40000ms exceeded'')"
    by (simp add: down_env_simps)
  from server_accepts [of down_env signed_request sample_event empty_world
      "''app_1;externalUserId=user_42''" "AxiosError ''timeout of 40000ms exceeded''"]
    v p f q a n
  show ?thesis by blast
qed

subsection \<open>C4: an event whose signature does not verify\<close>

text \<open>
  C4: an event whose signature verification fails is rejected before normalisation, with
  no cache update, no forward, and an authentication failure for the caller. The older
  endpoint does that. The endpoint of \<open>server.js\<close> does not, because it does not await
  the verification: with the secret set and debug mode off, a request whose
  verification is rejected never takes the guarded branch, and what follows depends on
  the runtime alone. Under \<open>Warn\<close> the event is handled as if it had verified; under
  \<open>Throw\<close> the process ends. The evaluation is at a request with the digest
  \<open>deadbeef\<close>: under \<open>Warn\<close> it is parsed, forwarded, cached and answered 200; under
  \<open>Throw\<close> nothing is forwarded or cached, the caller gets no answer and the process
  has ended. In neither case does the caller see an authentication failure.
\<close>

theorem forged_signature_not_rejected:
  "(\<not> falsy (SUMSUB_WEBHOOK_SECRET e) \<and> DEBUG_WEBHOOK e \<noteq> Some ''true''
     \<and> verifyWebhookSignature (hmac e) (rawBody req) (x_payload_digest req)
          (SUMSUB_WEBHOOK_SECRET e) = Inl err
    \<longrightarrow> sumsub_webhook e s req =
          (case unhandled_rejections e of
             Warn \<Rightarrow> answered (server_process e (s\<lparr>unhandled := unhandled s @ [err]\<rparr>) req)
           | Throw \<Rightarrow> server_until_exit e (s\<lparr>unhandled := unhandled s @ [err]\<rparr>) req))
   \<and> verifyWebhookSignature (hmac sample_env) (rawBody forged_request)
       (x_payload_digest forged_request) (SUMSUB_WEBHOOK_SECRET sample_env)
     = Inl (Error ''Invalid webhook signature'')
   \<and> fst (sumsub_webhook warn_env empty_world forged_request)
     = Some \<lparr>res_status = 200, res_body = Send ''Webhook processed successfully''\<rparr>
   \<and> length (sent (snd (sumsub_webhook warn_env empty_world forged_request))) = 2
   \<and> cached_createdAt (snd (sumsub_webhook warn_env empty_world forged_request))
        (Some ''user_42'') = Some 1000
   \<and> unhandled (snd (sumsub_webhook warn_env empty_world forged_request))
     = [Error ''Invalid webhook signature'']
   \<and> \<not> exited (snd (sumsub_webhook warn_env empty_world forged_request))
   \<and> fst (sumsub_webhook sample_env empty_world forged_request) = None
   \<and> sent (snd (sumsub_webhook sample_env empty_world forged_request)) = []
   \<and> cached_createdAt (snd (sumsub_webhook sample_env empty_world forged_request))
        (Some ''user_42'') = None
   \<and> unhandled (snd (sumsub_webhook sample_env empty_world forged_request))
     = [Error ''Invalid webhook signature'']
   \<and> exited (snd (sumsub_webhook sample_env empty_world forged_request))
   \<and> fst (sumsub_webhook_old sample_env empty_world forged_request)
     = \<lparr>res_status = 400,
        res_body = Json [(''error'', ''Invalid webhook signature''),
                         (''details'', ''Check server logs for more info'')]\<rparr>
   \<and> sent (snd (sumsub_webhook_old sample_env empty_world forged_request)) = []
   \<and> cached_createdAt (snd (sumsub_webhook_old sample_env empty_world forged_request))
        (Some ''user_42'') = None"
proof -
  let ?s0 = "empty_world\<lparr>unhandled := [Error ''Invalid webhook signature'']\<rparr>"
  have g: "\<not> falsy (SUMSUB_WEBHOOK_SECRET e) \<and> DEBUG_WEBHOOK e \<noteq> Some ''true''
     \<and> verifyWebhookSignature (hmac e) (rawBody req) (x_payload_digest req)
          (SUMSUB_WEBHOOK_SECRET e) = Inl err
    \<longrightarrow> sumsub_webhook e s req =
          (case unhandled_rejections e of
             Warn \<Rightarrow> answered (server_process e (s\<lparr>unhandled := unhandled s @ [err]\<rparr>) req)
           | Throw \<Rightarrow> server_until_exit e (s\<lparr>unhandled := unhandled s @ [err]\<rparr>) req)"
    using sumsub_webhook_rejected [of e req err s] by blast
  have v: "verifyWebhookSignature (hmac sample_env) (rawBody forged_request)
       (x_payload_digest forged_request) (SUMSUB_WEBHOOK_SECRET sample_env)
     = Inl (Error ''Invalid webhook signature'')"
    by (simp add: sample_env_simps request_simps forged_rejected)
  have vw: "verifyWebhookSignature (hmac warn_env) (rawBody forged_request)
       (x_payload_digest forged_request) (SUMSUB_WEBHOOK_SECRET warn_env)
     = Inl (Error ''Invalid webhook signature'')"
    by (simp add: warn_env_simps request_simps forged_rejected)
  have u: "unhandled empty_world = []"
    by (simp add: empty_world_def)
  have warn: "sumsub_webhook warn_env empty_world forged_request
      = answered (server_process warn_env ?s0 plain_request)"
    using sumsub_webhook_rejected [OF _ _ vw, of empty_world] u
    by (simp add: falsy_def warn_env_simps server_process_body [of forged_request plain_request]
        request_simps plain_request_def)
  have throw: "sumsub_webhook sample_env empty_world forged_request
      = (None, ?s0\<lparr>exited := True\<rparr>)"
    using sumsub_webhook_rejected [OF _ _ v, of empty_world] u
    by (simp add: falsy_def sample_env_simps server_until_exit_def request_simps sample_event_def)
  have old: "sumsub_webhook_old sample_env empty_world forged_request
      = (old_catch (Error ''Invalid webhook signature''), empty_world)"
    using v by (simp add: sumsub_webhook_old_def sample_env_simps)
  have 1: "fst (server_process warn_env ?s0 plain_request)
     = \<lparr>res_status = 200, res_body = Send ''Webhook processed successfully''\<rparr>"
    by code_simp
  have 2: "length (sent (snd (server_process warn_env ?s0 plain_request))) = 2"
    by code_simp
  have 3: "cached_createdAt (snd (server_process warn_env ?s0 plain_request))
        (Some ''user_42'') = Some 1000"
    by code_simp
  have 4: "unhandled (snd (server_process warn_env ?s0 plain_request))
     = [Error ''Invalid webhook signature'']"
    by code_simp
  have 5: "\<not> exited (snd (server_process warn_env ?s0 plain_request))"
    by code_simp
  have 6: "sent empty_world = []" "cached_createdAt empty_world (Some ''user_42'') = None"
    by (simp_all add: empty_world_def cached_createdAt_def)
  have 7: "cached_createdAt (?s0\<lparr>exited := True\<rparr>) (Some ''user_42'') = None"
    by (simp add: empty_world_def cached_createdAt_def)
  from g v 1 2 3 4 5 6 7 show ?thesis
    unfolding warn throw old by (simp add: old_catch_def answered_def)
qed

theorem forged_signature_not_rejected_witness:
  "map_option res_status (fst (sumsub_webhook warn_env empty_world forged_request)) = Some 200
   \<and> fst (sumsub_webhook sample_env empty_world forged_request) = None
   \<and> res_status (fst (sumsub_webhook_old sample_env empty_world forged_request)) = 400"
  using forged_signature_not_rejected [of sample_env forged_request
      "Error ''Invalid webhook signature''" empty_world]
  by simp

end
